theory Spec2Isabelle
  imports Complex_Main "HOL-Library.Log_Nat"
begin

section \<open>Go values used by the indicators\<close>

subsection \<open>Machine integers\<close>

text \<open>
  Go's \<^verbatim>\<open>int\<close> is taken to be 64 bits wide.  Values are mathematical integers;
  every \<^verbatim>\<open>+\<close> and \<^verbatim>\<open>-\<close> of the source is followed by \<open>int64\<close>, which wraps the
  result into the signed 64-bit range as the hardware does.
\<close>

definition int64 :: "int \<Rightarrow> int" where
  "int64 x = (x + 2 ^ 63) mod 2 ^ 64 - 2 ^ 63"

definition in_int64 :: "int \<Rightarrow> bool" where
  "in_int64 x = (- (2 ^ 63) \<le> x \<and> x < 2 ^ 63)"

subsection \<open>float64\<close>

text \<open>
  An IEEE-754 binary64 value: not-a-number, an infinity, or a finite dyadic number
  \<open>Fin m e\<close> standing for \<open>m * 2 ^ e\<close>.  Every finite binary64 value is such a pair (a
  mantissa below \<open>2 ^ 53\<close> in absolute value on an exponent from -1074 to 971); the
  statements below hold for every pair.  The sign of a zero is not represented: the
  modelled code never divides by a float, never formats one and never reads its sign bit.
  Arithmetic takes the exact dyadic result and rounds it to the nearest binary64 value,
  ties to even.
\<close>

datatype float64 = NaN | NegInf | PosInf | Fin int int

fun f64_val :: "float64 \<Rightarrow> real" where
  "f64_val (Fin m e) = of_int m * 2 powi e"
| "f64_val _ = 0"

definition f64_zero :: float64 where
  "f64_zero = Fin 0 0"

definition f64_one :: float64 where
  "f64_one = Fin 1 0"

fun is_zero :: "float64 \<Rightarrow> bool" where
  "is_zero (Fin m e) = (m = 0)"
| "is_zero _ = False"

text \<open>Comparison of two dyadic numbers, on a common exponent.\<close>

definition dy_less :: "int \<Rightarrow> int \<Rightarrow> int \<Rightarrow> int \<Rightarrow> bool" where
  "dy_less m1 e1 m2 e2 =
     (m1 * 2 ^ nat (e1 - min e1 e2) < m2 * 2 ^ nat (e2 - min e1 e2))"

text \<open>The operator \<^verbatim>\<open><\<close> on float64: false as soon as an operand is NaN.\<close>

fun f64_lt :: "float64 \<Rightarrow> float64 \<Rightarrow> bool" where
  "f64_lt NaN y = False"
| "f64_lt x NaN = False"
| "f64_lt NegInf NegInf = False"
| "f64_lt NegInf y = True"
| "f64_lt x NegInf = False"
| "f64_lt PosInf y = False"
| "f64_lt x PosInf = True"
| "f64_lt (Fin m1 e1) (Fin m2 e2) = dy_less m1 e1 m2 e2"

text \<open>The operator \<^verbatim>\<open><=\<close> on float64.\<close>

definition f64_le :: "float64 \<Rightarrow> float64 \<Rightarrow> bool" where
  "f64_le x y = (x \<noteq> NaN \<and> y \<noteq> NaN \<and> \<not> f64_lt y x)"

text \<open>
  \<^verbatim>\<open>math.Min\<close> and \<^verbatim>\<open>math.Max\<close> of Go's standard library, with their special cases in
  the library's order: an infinity of the matching sign wins, then NaN, then two zeros,
  then the comparison.
\<close>

definition math_Min :: "float64 \<Rightarrow> float64 \<Rightarrow> float64" where
  "math_Min x y =
     (if x = NegInf \<or> y = NegInf then NegInf
      else if x = NaN \<or> y = NaN then NaN
      else if is_zero x \<and> is_zero y then y
      else if f64_lt x y then x else y)"

definition math_Max :: "float64 \<Rightarrow> float64 \<Rightarrow> float64" where
  "math_Max x y =
     (if x = PosInf \<or> y = PosInf then PosInf
      else if x = NaN \<or> y = NaN then NaN
      else if is_zero x \<and> is_zero y then x
      else if f64_lt y x then x else y)"

text \<open>
  Rounding the exact dyadic number \<open>m * 2 ^ e\<close> to binary64.  The result is written on
  the exponent \<open>e'\<close> of its last mantissa bit (53 bits of precision, never below the
  subnormal exponent -1074); \<open>rne a s\<close> is \<open>a / 2 ^ s\<close> rounded to the nearest integer,
  ties to even.  A result of 2 ^ 1024 or more overflows to an infinity.
\<close>

definition rne :: "int \<Rightarrow> nat \<Rightarrow> int" where
  "rne a s =
     (let q = a div 2 ^ s; r = a mod 2 ^ s
      in if 2 ^ s < 2 * r \<or> (2 * r = 2 ^ s \<and> odd q) then q + 1 else q)"

definition f64_round :: "int \<Rightarrow> int \<Rightarrow> float64" where
  "f64_round m e =
     (if m = 0 then Fin 0 0
      else
        let a = \<bar>m\<bar>;
            e' = max (e + bitlen a - 53) (- 1074);
            q = (if e' \<le> e then a * 2 ^ nat (e - e') else rne a (nat (e' - e)))
        in if 1024 < bitlen q + e' then (if m < 0 then NegInf else PosInf)
           else Fin (sgn m * q) e')"

text \<open>The conversion \<^verbatim>\<open>float64(n)\<close> of an int.\<close>

definition f64_of_int :: "int \<Rightarrow> float64" where
  "f64_of_int n = f64_round n 0"

text \<open>The operator \<^verbatim>\<open>*\<close> on float64.\<close>

fun f64_mul :: "float64 \<Rightarrow> float64 \<Rightarrow> float64" where
  "f64_mul NaN y = NaN"
| "f64_mul x NaN = NaN"
| "f64_mul (Fin m1 e1) (Fin m2 e2) = f64_round (m1 * m2) (e1 + e2)"
| "f64_mul (Fin m e) PosInf = (if m = 0 then NaN else if m < 0 then NegInf else PosInf)"
| "f64_mul (Fin m e) NegInf = (if m = 0 then NaN else if m < 0 then PosInf else NegInf)"
| "f64_mul PosInf (Fin m e) = (if m = 0 then NaN else if m < 0 then NegInf else PosInf)"
| "f64_mul NegInf (Fin m e) = (if m = 0 then NaN else if m < 0 then PosInf else NegInf)"
| "f64_mul PosInf PosInf = PosInf"
| "f64_mul NegInf NegInf = PosInf"
| "f64_mul PosInf NegInf = NegInf"
| "f64_mul NegInf PosInf = NegInf"

text \<open>
  The conversion \<^verbatim>\<open>int(f)\<close>: the fraction is discarded (truncation towards zero).  When
  the value is NaN, an infinity or outside the range of int, the language leaves the
  result to the implementation; \<open>undef\<close> is what the platform at hand yields.
\<close>

definition dy_trunc :: "int \<Rightarrow> int \<Rightarrow> int" where
  "dy_trunc m e = (if 0 \<le> e then m * 2 ^ nat e else sgn m * (\<bar>m\<bar> div 2 ^ nat (- e)))"

fun int_of_f64 :: "(float64 \<Rightarrow> int) \<Rightarrow> float64 \<Rightarrow> int" where
  "int_of_f64 undef (Fin m e) =
     (if in_int64 (dy_trunc m e) then dy_trunc m e else undef (Fin m e))"
| "int_of_f64 undef x = undef x"

subsection \<open>Strings and formatting\<close>

text \<open>A Go string is its sequence of bytes.\<close>

definition CR :: string where
  "CR = [CHR 0x0D]"

text \<open>
  The ways a call can end other than by returning: the run-time panics of the modelled
  code (an unrecovered panic ends the process), a panic raised by the caller's own
  function, and a receive that can never complete.
\<close>

datatype failure =
    NegativeRepeat
  | NilWriter
  | DivideByZero
  | IndexOutOfRange
  | NonPositiveTicker
  | CloseOfClosedChannel
  | BlockedForever
  | FnPanicked

text \<open>
  \<^verbatim>\<open>strings.Repeat\<close> panics on a negative count.  Memory is not bounded here: a count
  the process could not allocate still yields its string.
\<close>

definition strings_Repeat :: "string \<Rightarrow> int \<Rightarrow> failure + string" where
  "strings_Repeat s count =
     (if count < 0 then Inl NegativeRepeat else Inr (concat (replicate (nat count) s)))"

text \<open>
  The loop \<^verbatim>\<open>for i := 0; i < n; i++ { bar.WriteString(s) }\<close>: \<open>n\<close> copies of \<open>s\<close>, none
  when \<open>n\<close> is not positive.
\<close>

definition write_times :: "int \<Rightarrow> string \<Rightarrow> string" where
  "write_times n s = concat (replicate (nat n) s)"

definition digit_char :: "nat \<Rightarrow> char" where
  "digit_char d = char_of (48 + d)"

function show_nat :: "nat \<Rightarrow> string" where
  "show_nat n = (if n < 10 then [digit_char n] else show_nat (n div 10) @ [digit_char (n mod 10)])"
  by pat_completeness auto
termination
  by (relation "measure id") auto

declare show_nat.simps [simp del]

text \<open>The verb \<^verbatim>\<open>%d\<close>, and \<^verbatim>\<open>%3d\<close> which pads on the left to three columns.\<close>

definition show_int :: "int \<Rightarrow> string" where
  "show_int i = (if i < 0 then CHR ''-'' # show_nat (nat (- i)) else show_nat (nat i))"

definition pad_left :: "nat \<Rightarrow> string \<Rightarrow> string" where
  "pad_left w s = replicate (w - length s) CHR '' '' @ s"

text \<open>
  The verb \<^verbatim>\<open>%c\<close> writes a rune as UTF-8; a value that is no Unicode scalar value is
  written as U+FFFD.
\<close>

type_synonym rune = int

definition utf8 :: "rune \<Rightarrow> string" where
  "utf8 r =
     (if r < 0 \<or> 0x10FFFF < r \<or> (0xD800 \<le> r \<and> r \<le> 0xDFFF)
        then [char_of (0xEF :: int), char_of (0xBF :: int), char_of (0xBD :: int)]
      else if r \<le> 0x7F then [char_of r]
      else if r \<le> 0x7FF then [char_of (0xC0 + r div 64), char_of (0x80 + r mod 64)]
      else if r \<le> 0xFFFF
        then [char_of (0xE0 + r div 4096), char_of (0x80 + (r div 64) mod 64),
              char_of (0x80 + r mod 64)]
      else [char_of (0xF0 + r div 262144), char_of (0x80 + (r div 4096) mod 64),
            char_of (0x80 + (r div 64) mod 64), char_of (0x80 + r mod 64)])"

subsection \<open>The world outside the process\<close>

text \<open>
  An \<^verbatim>\<open>io.Writer\<close> is named by a \<open>sink\<close>; \<open>None\<close> is the nil interface value, and a
  write through it panics.  What \<^verbatim>\<open>term.GetSize\<close> returned is a \<open>GetSize\<close> value: the
  width and whether the error is non-nil.  The platform and the clock enter through
  \<open>env\<close>: the result of an out-of-range float-to-int conversion, and the text that
  \<^verbatim>\<open>calculateETA\<close> derives from the wall clock when progress is positive.
\<close>

datatype sink = Stdout | Sink nat

record GetSize =
  gs_width :: int
  gs_err :: bool

record env =
  conv_undef :: "float64 \<Rightarrow> int"
  eta_clock :: string

section \<open>The configurable progress bar (package progress, unnamed/part_000)\<close>

record BarConfig =
  Width :: int
  FilledChar :: string
  EmptyChar :: string
  Writer :: "sink option"
  ShowPercent :: bool
  ShowETA :: bool

text \<open>
  The struct \<^verbatim>\<open>Bar\<close>.  \<open>startTime\<close> is \<open>None\<close> for the zero \<^verbatim>\<open>time.Time\<close>.  Three
  fields record the effects on the world: \<open>notified\<close> (\<^verbatim>\<open>termSizeCh\<close> is registered for
  SIGWINCH), \<open>resizers\<close> (the \<^verbatim>\<open>handleResize\<close> goroutines started and not yet returned)
  and \<open>written\<close> (the bytes sent to \<^verbatim>\<open>config.Writer\<close> so far).
\<close>

record Bar =
  config :: BarConfig
  totalWidth :: int
  lastProgress :: float64
  started :: bool
  stopped :: bool
  startTime :: "int option"
  notified :: bool
  resizers :: nat
  written :: string

type_synonym BarOption = "BarConfig \<Rightarrow> BarConfig"

definition WithWidth :: "int \<Rightarrow> BarOption" where
  "WithWidth width c = c\<lparr>Width := width\<rparr>"

definition WithFilledChar :: "string \<Rightarrow> BarOption" where
  "WithFilledChar char c = c\<lparr>FilledChar := char\<rparr>"

definition WithEmptyChar :: "string \<Rightarrow> BarOption" where
  "WithEmptyChar char c = c\<lparr>EmptyChar := char\<rparr>"

definition WithWriter :: "sink option \<Rightarrow> BarOption" where
  "WithWriter w c = c\<lparr>Writer := w\<rparr>"

definition WithPercent :: "bool \<Rightarrow> BarOption" where
  "WithPercent show c = c\<lparr>ShowPercent := show\<rparr>"

definition WithETA :: "bool \<Rightarrow> BarOption" where
  "WithETA show c = c\<lparr>ShowETA := show\<rparr>"

definition StyleDefault :: BarConfig where
  "StyleDefault =
     \<lparr>Width = 0, FilledChar = ''#'', EmptyChar = '' '', Writer = Some Stdout,
      ShowPercent = True, ShowETA = False\<rparr>"

definition StyleMinimal :: BarConfig where
  "StyleMinimal =
     \<lparr>Width = 0, FilledChar = ''='', EmptyChar = ''-'', Writer = Some Stdout,
      ShowPercent = False, ShowETA = False\<rparr>"

text \<open>\<^verbatim>\<open>fmt.Fprint(b.config.Writer, s)\<close>; the error a writer returns is ignored.\<close>

definition emit :: "Bar \<Rightarrow> string \<Rightarrow> failure + Bar" where
  "emit b s =
     (case Writer (config b) of
        None \<Rightarrow> Inl NilWriter
      | Some w \<Rightarrow> Inr (b\<lparr>written := written b @ s\<rparr>))"

definition calculateWidth :: "GetSize \<Rightarrow> Bar \<Rightarrow> Bar" where
  "calculateWidth gs b =
     (if 0 < Width (config b) then b\<lparr>totalWidth := Width (config b)\<rparr>
      else if gs_err gs then b\<lparr>totalWidth := 60\<rparr>
      else
        let reserved1 = (if ShowPercent (config b) then int64 (0 + 5) else 0);
            reserved2 = (if ShowETA (config b) then int64 (reserved1 + 12) else reserved1);
            w = int64 (int64 (gs_width gs - reserved2) - 2)
        in b\<lparr>totalWidth := (if w < 10 then 10 else w)\<rparr>)"

definition NewBarWithConfig :: "GetSize \<Rightarrow> BarConfig \<Rightarrow> BarOption list \<Rightarrow> Bar" where
  "NewBarWithConfig gs cfg opts =
     (let c1 = foldl (\<lambda>c opt. opt c) cfg opts;
          c2 = (if FilledChar c1 = [] then c1\<lparr>FilledChar := ''#''\<rparr> else c1);
          c3 = (if EmptyChar c2 = [] then c2\<lparr>EmptyChar := '' ''\<rparr> else c2);
          c4 = (if Writer c3 = None then c3\<lparr>Writer := Some Stdout\<rparr> else c3)
      in calculateWidth gs
           \<lparr>config = c4, totalWidth = 0, lastProgress = f64_zero, started = False,
            stopped = False, startTime = None, notified = False, resizers = 0,
            written = []\<rparr>)"

definition NewBar :: "GetSize \<Rightarrow> Bar" where
  "NewBar gs = NewBarWithConfig gs StyleDefault []"

definition clearLine :: "Bar \<Rightarrow> failure + Bar" where
  "clearLine b =
     (let w1 = (if ShowPercent (config b) then int64 (totalWidth b + 5) else totalWidth b);
          w2 = (if ShowETA (config b) then int64 (w1 + 12) else w1)
      in case strings_Repeat '' '' (int64 (w2 + 5)) of
           Inl e \<Rightarrow> Inl e
         | Inr blank \<Rightarrow> emit b (CR @ blank))"

definition Start :: "int \<Rightarrow> Bar \<Rightarrow> failure + Bar" where
  "Start now b =
     (if started b \<and> \<not> stopped b then Inr b
      else
        case clearLine (b\<lparr>started := True, stopped := False, startTime := Some now\<rparr>) of
          Inl e \<Rightarrow> Inl e
        | Inr b1 \<Rightarrow>
            let b2 = b1\<lparr>lastProgress := f64_zero\<rparr>
            in Inr (if Width (config b2) = 0
                    then b2\<lparr>notified := True, resizers := Suc (resizers b2)\<rparr>
                    else b2))"

definition Stop :: "Bar \<Rightarrow> failure + Bar" where
  "Stop b =
     (if stopped b then Inr b
      else
        let b1 = b\<lparr>stopped := True\<rparr>;
            b2 = (if Width (config b1) = 0 then b1\<lparr>notified := False\<rparr> else b1)
        in case clearLine b2 of
             Inl e \<Rightarrow> Inl e
           | Inr b3 \<Rightarrow> emit b3 CR)"

definition calculateETA :: "env \<Rightarrow> float64 \<Rightarrow> string" where
  "calculateETA ev progress =
     (if f64_le progress f64_zero then ''--:--'' else eta_clock ev)"

definition SetProgress :: "env \<Rightarrow> float64 \<Rightarrow> Bar \<Rightarrow> failure + Bar" where
  "SetProgress ev p b =
     (if \<not> started b \<or> stopped b then Inr b
      else
        let progress = math_Max f64_zero (math_Min f64_one p);
            b1 = b\<lparr>lastProgress := progress\<rparr>;
            filledCount =
              int_of_f64 (conv_undef ev) (f64_mul (f64_of_int (totalWidth b1)) progress);
            emptyCount = int64 (totalWidth b1 - filledCount);
            track = write_times filledCount (FilledChar (config b1))
                    @ write_times emptyCount (EmptyChar (config b1));
            percent =
              (if ShowPercent (config b1)
               then '' '' @ pad_left 3
                      (show_int (int_of_f64 (conv_undef ev) (f64_mul progress (Fin 100 0))))
                    @ ''%''
               else []);
            eta = (if ShowETA (config b1) then '' ETA: '' @ calculateETA ev progress else [])
        in emit b1 (CR @ track @ percent @ eta))"

definition GetProgress :: "Bar \<Rightarrow> float64" where
  "GetProgress b = lastProgress b"

definition IsStarted :: "Bar \<Rightarrow> bool" where
  "IsStarted b = started b"

definition IsStopped :: "Bar \<Rightarrow> bool" where
  "IsStopped b = stopped b"

definition Reset :: "Bar \<Rightarrow> Bar" where
  "Reset b = b\<lparr>lastProgress := f64_zero, started := False, stopped := False, startTime := None\<rparr>"

text \<open>
  One SIGWINCH taken from \<^verbatim>\<open>termSizeCh\<close> by a \<^verbatim>\<open>handleResize\<close> goroutine: it returns
  when the bar is stopped, and otherwise recomputes the width and redraws.
\<close>

definition handleResize :: "env \<Rightarrow> GetSize \<Rightarrow> Bar \<Rightarrow> failure + Bar" where
  "handleResize ev gs b =
     (if stopped b then Inr (b\<lparr>resizers := resizers b - 1\<rparr>)
      else let b1 = calculateWidth gs b in SetProgress ev (lastProgress b1) b1)"

text \<open>
  The function handed to \<^verbatim>\<open>Run\<close>, as seen by the bar: the progress values it passes to
  the setter, in order, and whether it then panics instead of returning.
\<close>

record progress_fn =
  fn_calls :: "float64 list"
  fn_panics :: bool

fun set_all :: "env \<Rightarrow> float64 list \<Rightarrow> Bar \<Rightarrow> failure + Bar" where
  "set_all ev [] b = Inr b"
| "set_all ev (p # ps) b =
     (case SetProgress ev p b of Inl e \<Rightarrow> Inl e | Inr b1 \<Rightarrow> set_all ev ps b1)"

text \<open>
  \<^verbatim>\<open>Run\<close>: after \<^verbatim>\<open>Start\<close> the caller blocks in \<^verbatim>\<open>wg.Wait()\<close> while the new goroutine
  runs \<open>fn\<close>, so the calls of \<open>fn\<close> come between \<^verbatim>\<open>Start\<close> and the deferred \<^verbatim>\<open>Stop\<close>.  A
  panic on the new goroutine is not recovered: it ends the process, and the deferred
  call of the waiting goroutine does not run.
\<close>

definition Run :: "env \<Rightarrow> int \<Rightarrow> progress_fn \<Rightarrow> Bar \<Rightarrow> failure + Bar" where
  "Run ev now fn b =
     (case Start now b of
        Inl e \<Rightarrow> Inl e
      | Inr b1 \<Rightarrow>
          (case set_all ev (fn_calls fn) b1 of
             Inl e \<Rightarrow> Inl e
           | Inr b2 \<Rightarrow> if fn_panics fn then Inl FnPanicked else Stop b2))"

subsection \<open>MultiBar\<close>

record LabeledBar =
  bar :: Bar
  label :: string
  line :: int

record MultiBar =
  bars :: "string \<rightharpoonup> LabeledBar"

definition NewMultiBar :: MultiBar where
  "NewMultiBar = \<lparr>bars = Map.empty\<rparr>"

text \<open>
  \<^verbatim>\<open>Add\<close>: the composite literal, with \<^verbatim>\<open>len(mb.bars)\<close> in it, is evaluated before the
  map is assigned to.
\<close>

definition MultiBar_Add ::
  "GetSize \<Rightarrow> string \<Rightarrow> string \<Rightarrow> BarConfig \<Rightarrow> BarOption list \<Rightarrow> MultiBar \<Rightarrow> MultiBar" where
  "MultiBar_Add gs name lbl cfg opts mb =
     (let b = NewBarWithConfig gs cfg opts
      in mb\<lparr>bars := (bars mb)(name \<mapsto> \<lparr>bar = b, label = lbl, line = int (card (dom (bars mb)))\<rparr>)\<rparr>)"

section \<open>The configurable spinner (package spinner, unnamed/part_001)\<close>

text \<open>
  A channel of the struct is nil (\<open>None\<close>), open or closed.  The operator \<^verbatim>\<open>%\<close> of Go
  truncates towards zero.
\<close>

datatype chan = OpenChan | ClosedChan

definition go_rem :: "int \<Rightarrow> int \<Rightarrow> int" where
  "go_rem a b = sgn a * (\<bar>a\<bar> mod \<bar>b\<bar>)"

type_synonym Frames = "rune list"

definition FramesLines :: Frames where
  "FramesLines = [0x7C, 0x2F, 0x2D, 0x5C]"

text \<open>
  The struct \<^verbatim>\<open>Spinner\<close>; durations are in nanoseconds.  \<open>frameIndex\<close> is the local
  variable of the animation goroutine, \<open>None\<close> when no such goroutine is alive, and
  \<open>printed\<close> is what was sent to \<^verbatim>\<open>writer\<close> so far.  An event of the animation is one call
  of \<open>Spinner_tick\<close>: the ticker fires and the goroutine takes that branch of its select.
\<close>

record Spinner =
  frames :: Frames
  frameDuration :: int
  writer :: "sink option"
  prefix :: string
  suffix :: string
  doneCh :: "chan option"
  finishedCh :: "chan option"
  running :: bool
  frameIndex :: "int option"
  printed :: string

type_synonym SpinnerOption = "Spinner \<Rightarrow> Spinner"

definition WithFrameDuration :: "int \<Rightarrow> SpinnerOption" where
  "WithFrameDuration duration s = s\<lparr>frameDuration := duration\<rparr>"

definition WithFrames :: "Frames \<Rightarrow> SpinnerOption" where
  "WithFrames fs s = s\<lparr>frames := fs\<rparr>"

definition Spinner_WithWriter :: "sink option \<Rightarrow> SpinnerOption" where
  "Spinner_WithWriter w s = s\<lparr>writer := w\<rparr>"

definition WithPrefix :: "string \<Rightarrow> SpinnerOption" where
  "WithPrefix p s = s\<lparr>prefix := p\<rparr>"

definition WithSuffix :: "string \<Rightarrow> SpinnerOption" where
  "WithSuffix p s = s\<lparr>suffix := p\<rparr>"

definition Spinner_New :: "SpinnerOption list \<Rightarrow> Spinner" where
  "Spinner_New opts =
     foldl (\<lambda>s opt. opt s)
       \<lparr>frames = FramesLines, frameDuration = 100 * 1000000, writer = Some Stdout,
        prefix = [], suffix = [], doneCh = None, finishedCh = None, running = False,
        frameIndex = None, printed = []\<rparr>
       opts"

definition Spinner_emit :: "Spinner \<Rightarrow> string \<Rightarrow> failure + Spinner" where
  "Spinner_emit s txt =
     (case writer s of
        None \<Rightarrow> Inl NilWriter
      | Some w \<Rightarrow> Inr (s\<lparr>printed := printed s @ txt\<rparr>))"

text \<open>\<^verbatim>\<open>s.frames[frameIndex%len(s.frames)]\<close>, with its two run-time panics.\<close>

definition frame_at :: "Frames \<Rightarrow> int \<Rightarrow> failure + rune" where
  "frame_at fs i =
     (if length fs = 0 then Inl DivideByZero
      else let r = go_rem i (int (length fs))
           in if r < 0 then Inl IndexOutOfRange else Inr (fs ! nat r))"

text \<open>
  \<^verbatim>\<open>Start\<close>.  The goroutine it spawns first creates its ticker, and \<^verbatim>\<open>time.NewTicker\<close>
  panics on a duration that is not positive.
\<close>

definition Spinner_Start :: "Spinner \<Rightarrow> failure + Spinner" where
  "Spinner_Start s =
     (if running s then Inr s
      else if frameDuration s \<le> 0 then Inl NonPositiveTicker
      else Inr (s\<lparr>frameIndex := Some 0, doneCh := Some OpenChan,
                   finishedCh := Some OpenChan, running := True\<rparr>))"

definition Spinner_tick :: "Spinner \<Rightarrow> failure + Spinner" where
  "Spinner_tick s =
     (case frameIndex s of
        None \<Rightarrow> Inr s
      | Some i \<Rightarrow>
          (case frame_at (frames s) i of
             Inl e \<Rightarrow> Inl e
           | Inr frame \<Rightarrow>
               (case Spinner_emit s (CR @ prefix s @ utf8 frame @ suffix s) of
                  Inl e \<Rightarrow> Inl e
                | Inr s1 \<Rightarrow> Inr (s1\<lparr>frameIndex := Some (int64 (i + 1))\<rparr>))))"

definition Spinner_clearLine :: "Spinner \<Rightarrow> failure + Spinner" where
  "Spinner_clearLine s =
     Spinner_emit s
       (CR @ replicate (length (prefix s) + length (suffix s) + 1) CHR '' '' @ CR)"

text \<open>
  \<^verbatim>\<open>Stop\<close>: closing \<^verbatim>\<open>doneCh\<close> makes the goroutine return, its deferred calls clear the
  line and close \<^verbatim>\<open>finishedCh\<close>, and the receive from \<^verbatim>\<open>finishedCh\<close> completes.  With
  no goroutine alive nothing ever closes \<^verbatim>\<open>finishedCh\<close>.
\<close>

definition Spinner_Stop :: "Spinner \<Rightarrow> failure + Spinner" where
  "Spinner_Stop s =
     (if \<not> running s \<or> doneCh s = None then Inr s
      else if doneCh s = Some ClosedChan then Inl CloseOfClosedChannel
      else
        case frameIndex s of
          None \<Rightarrow>
            (if finishedCh s = Some ClosedChan
             then Inr (s\<lparr>doneCh := None, finishedCh := None, running := False\<rparr>)
             else Inl BlockedForever)
        | Some i \<Rightarrow>
            (case Spinner_clearLine s of
               Inl e \<Rightarrow> Inl e
             | Inr s1 \<Rightarrow>
                 (if finishedCh s = None then Inl BlockedForever
                  else Inr (s1\<lparr>frameIndex := None, doneCh := None, finishedCh := None,
                               running := False\<rparr>))))"

definition IsRunning :: "Spinner \<Rightarrow> bool" where
  "IsRunning s = running s"

text \<open>The states a spinner built by \<open>Spinner_New\<close> can be in.\<close>

definition Spinner_inv :: "Spinner \<Rightarrow> bool" where
  "Spinner_inv s =
     (if running s
      then doneCh s = Some OpenChan \<and> finishedCh s = Some OpenChan \<and> frameIndex s \<noteq> None
      else doneCh s = None \<and> finishedCh s = None \<and> frameIndex s = None)"

subsection \<open>MultiSpinner\<close>

text \<open>The fields \<^verbatim>\<open>label\<close> and \<^verbatim>\<open>line\<close> of \<^verbatim>\<open>LabeledSpinner\<close> carry a suffix here.\<close>

record LabeledSpinner =
  spinner :: Spinner
  label_s :: string
  line_s :: int

record MultiSpinner =
  spinners :: "string \<rightharpoonup> LabeledSpinner"

definition NewMultiSpinner :: MultiSpinner where
  "NewMultiSpinner = \<lparr>spinners = Map.empty\<rparr>"

definition MultiSpinner_Add ::
  "string \<Rightarrow> string \<Rightarrow> SpinnerOption list \<Rightarrow> MultiSpinner \<Rightarrow> MultiSpinner" where
  "MultiSpinner_Add name lbl opts ms =
     (let s = Spinner_New (opts @ [WithPrefix (lbl @ '' '')])
      in ms\<lparr>spinners :=
           (spinners ms)(name \<mapsto>
              \<lparr>spinner = s, label_s = lbl, line_s = int (card (dom (spinners ms)))\<rparr>)\<rparr>)"

section \<open>The minimal bar and spinner (progress/progress.go, spinner/spinner.go)\<close>

text \<open>
  The repository also holds a first, smaller version of both indicators.  Its names carry
  the suffix 0.  Everything is printed to standard output, kept in \<open>stdout0\<close>.
\<close>

record Bar0 =
  totalWidth0 :: int
  lastPosition :: float64
  notified0 :: bool
  resizers0 :: nat
  stdout0 :: string

definition calculateWidth0 :: "GetSize \<Rightarrow> Bar0 \<Rightarrow> Bar0" where
  "calculateWidth0 gs b = b\<lparr>totalWidth0 := int64 (gs_width gs - 1)\<rparr>"

definition NewBar0 :: "GetSize \<Rightarrow> Bar0" where
  "NewBar0 gs =
     calculateWidth0 gs
       \<lparr>totalWidth0 = 0, lastPosition = f64_zero, notified0 = False, resizers0 = 0,
        stdout0 = []\<rparr>"

definition clearLine0 :: "Bar0 \<Rightarrow> failure + Bar0" where
  "clearLine0 b =
     (case strings_Repeat '' '' (totalWidth0 b) of
        Inl e \<Rightarrow> Inl e
      | Inr blank \<Rightarrow> Inr (b\<lparr>stdout0 := stdout0 b @ CR @ blank\<rparr>))"

definition Start0 :: "Bar0 \<Rightarrow> failure + Bar0" where
  "Start0 b =
     (case clearLine0 b of
        Inl e \<Rightarrow> Inl e
      | Inr b1 \<Rightarrow>
          Inr (b1\<lparr>lastPosition := f64_zero, notified0 := True,
                  resizers0 := Suc (resizers0 b1)\<rparr>))"

definition Stop0 :: "Bar0 \<Rightarrow> failure + Bar0" where
  "Stop0 b =
     (case clearLine0 b of
        Inl e \<Rightarrow> Inl e
      | Inr b1 \<Rightarrow> Inr (b1\<lparr>stdout0 := stdout0 b1 @ CR\<rparr>))"

definition SetProgress0 :: "env \<Rightarrow> float64 \<Rightarrow> Bar0 \<Rightarrow> failure + Bar0" where
  "SetProgress0 ev progress b =
     (let b1 = b\<lparr>lastPosition := progress\<rparr>;
          filledCount =
            int_of_f64 (conv_undef ev) (f64_mul (f64_of_int (totalWidth0 b1)) progress);
          emptyCount = int64 (totalWidth0 b1 - filledCount)
      in case strings_Repeat ''#'' filledCount of
           Inl e \<Rightarrow> Inl e
         | Inr filled \<Rightarrow>
             (case strings_Repeat '' '' emptyCount of
                Inl e \<Rightarrow> Inl e
              | Inr blank \<Rightarrow> Inr (b1\<lparr>stdout0 := stdout0 b1 @ CR @ filled @ blank\<rparr>)))"

fun set_all0 :: "env \<Rightarrow> float64 list \<Rightarrow> Bar0 \<Rightarrow> failure + Bar0" where
  "set_all0 ev [] b = Inr b"
| "set_all0 ev (p # ps) b =
     (case SetProgress0 ev p b of Inl e \<Rightarrow> Inl e | Inr b1 \<Rightarrow> set_all0 ev ps b1)"

text \<open>
  \<^verbatim>\<open>Run\<close> of the minimal bar spawns the goroutine that runs \<open>fn\<close> and goes on to
  \<^verbatim>\<open>b.Stop()\<close> at once: the wait group is set up but \<^verbatim>\<open>wg.Wait()\<close> is never called.
  Nothing orders the calls of \<open>fn\<close> and \<^verbatim>\<open>Stop\<close>; \<open>k\<close> is the number of calls the scheduler
  lets \<open>fn\<close> make before \<^verbatim>\<open>Stop\<close> runs.  The result is the bar when \<^verbatim>\<open>Run\<close> returns,
  with the calls \<open>fn\<close> has yet to make.
\<close>

definition Run0 ::
  "env \<Rightarrow> nat \<Rightarrow> progress_fn \<Rightarrow> Bar0 \<Rightarrow> failure + (Bar0 \<times> float64 list)" where
  "Run0 ev k fn b =
     (case Start0 b of
        Inl e \<Rightarrow> Inl e
      | Inr b1 \<Rightarrow>
          (case set_all0 ev (take k (fn_calls fn)) b1 of
             Inl e \<Rightarrow> Inl e
           | Inr b2 \<Rightarrow>
               if fn_panics fn \<and> length (fn_calls fn) \<le> k then Inl FnPanicked
               else (case Stop0 b2 of
                       Inl e \<Rightarrow> Inl e
                     | Inr b3 \<Rightarrow> Inr (b3, drop k (fn_calls fn)))))"

text \<open>
  The minimal spinner.  Its goroutine increments \<open>i\<close> at the top of every turn of its
  loop, before the select; \<open>anim0\<close> holds \<open>i\<close> while the goroutine is alive.
\<close>

record Spinner0 =
  frames0 :: Frames
  frameDuration0 :: int
  doneCh0 :: "chan option"
  finishedCh0 :: "chan option"
  anim0 :: "int option"
  printed0 :: string

type_synonym Spinner0Option = "Spinner0 \<Rightarrow> Spinner0"

definition WithFrameDuration0 :: "int \<Rightarrow> Spinner0Option" where
  "WithFrameDuration0 duration s = s\<lparr>frameDuration0 := duration\<rparr>"

definition WithFrames0 :: "Frames \<Rightarrow> Spinner0Option" where
  "WithFrames0 fs s = s\<lparr>frames0 := fs\<rparr>"

definition Spinner0_New :: "Spinner0Option list \<Rightarrow> Spinner0" where
  "Spinner0_New opts =
     foldl (\<lambda>s opt. opt s)
       \<lparr>frames0 = FramesLines, frameDuration0 = 1000000 * 100, doneCh0 = None,
        finishedCh0 = None, anim0 = None, printed0 = []\<rparr>
       opts"

definition Spinner0_Start :: "Spinner0 \<Rightarrow> failure + Spinner0" where
  "Spinner0_Start s =
     (if doneCh0 s \<noteq> None then Inr s
      else if frameDuration0 s \<le> 0 then Inl NonPositiveTicker
      else Inr (s\<lparr>anim0 := Some 0, doneCh0 := Some OpenChan, finishedCh0 := Some OpenChan\<rparr>))"

definition Spinner0_tick :: "Spinner0 \<Rightarrow> failure + Spinner0" where
  "Spinner0_tick s =
     (case anim0 s of
        None \<Rightarrow> Inr s
      | Some i0 \<Rightarrow>
          (let i = int64 (i0 + 1)
           in (case frame_at (frames0 s) i of
                 Inl e \<Rightarrow> Inl e
               | Inr frame \<Rightarrow>
                   Inr (s\<lparr>anim0 := Some i, printed0 := printed0 s @ CR @ utf8 frame\<rparr>))))"

definition Spinner0_Stop :: "Spinner0 \<Rightarrow> failure + Spinner0" where
  "Spinner0_Stop s =
     (case doneCh0 s of
        None \<Rightarrow> Inr s
      | Some ClosedChan \<Rightarrow> Inl CloseOfClosedChannel
      | Some OpenChan \<Rightarrow>
          (case anim0 s of
             None \<Rightarrow>
               (if finishedCh0 s = Some ClosedChan then Inr (s\<lparr>doneCh0 := Some ClosedChan\<rparr>)
                else Inl BlockedForever)
           | Some i \<Rightarrow>
               (if finishedCh0 s = None then Inl BlockedForever
                else Inr (s\<lparr>anim0 := None, doneCh0 := Some ClosedChan,
                             finishedCh0 := Some ClosedChan,
                             printed0 := printed0 s @ CR\<rparr>))))"

section \<open>Values used in the statements\<close>

text \<open>Sequencing of calls that may fail: the first failure ends the run.\<close>

definition and_then :: "failure + 'a \<Rightarrow> ('a \<Rightarrow> failure + 'b) \<Rightarrow> failure + 'b" where
  "and_then r f = (case r of Inl e \<Rightarrow> Inl e | Inr x \<Rightarrow> f x)"

text \<open>The clamping of the specification, on real numbers.\<close>

definition clamp01 :: "real \<Rightarrow> real" where
  "clamp01 x = max 0 (min 1 x)"

text \<open>
  A concrete platform and two concrete terminals: on amd64 an out-of-range conversion
  yields the least int; \<open>no_terminal\<close> is a failed width query, \<open>terminal80\<close> a
  terminal of 80 columns.
\<close>

definition conv_amd64 :: "float64 \<Rightarrow> int" where
  "conv_amd64 x = - (2 ^ 63)"

definition env_amd64 :: env where
  "env_amd64 = \<lparr>conv_undef = conv_amd64, eta_clock = ''00:07''\<rparr>"

definition no_terminal :: GetSize where
  "no_terminal = \<lparr>gs_width = 0, gs_err = True\<rparr>"

definition terminal80 :: GetSize where
  "terminal80 = \<lparr>gs_width = 80, gs_err = False\<rparr>"

definition f64_half :: float64 where
  "f64_half = Fin 1 (- 1)"

definition f64_three_halves :: float64 where
  "f64_three_halves = Fin 3 (- 1)"

text \<open>The binary64 value nearest to 0.7; it lies below 0.7.\<close>

definition f64_near_0_7 :: float64 where
  "f64_near_0_7 = Fin 6305039478318694 (- 53)"

text \<open>
  A bar of fixed width 10 drawn with \<^verbatim>\<open>#\<close> and blanks, and the state \<^verbatim>\<open>Start\<close> leaves
  it in when the clock reads 0.
\<close>

definition bar10 :: Bar where
  "bar10 = NewBarWithConfig terminal80 StyleDefault [WithWidth 10]"

definition running10 :: Bar where
  "running10 =
     bar10\<lparr>started := True, startTime := Some 0, written := CR @ replicate 20 CHR '' ''\<rparr>"

text \<open>
  What \<^verbatim>\<open>SetProgress\<close> writes after the track: the percentage and the estimate, each
  when enabled.
\<close>

definition render_suffix :: "env \<Rightarrow> BarConfig \<Rightarrow> float64 \<Rightarrow> string" where
  "render_suffix ev cfg progress =
     (if ShowPercent cfg
      then '' '' @ pad_left 3
             (show_int (int_of_f64 (conv_undef ev) (f64_mul progress (Fin 100 0))))
           @ ''%''
      else [])
     @ (if ShowETA cfg then '' ETA: '' @ calculateETA ev progress else [])"

section \<open>Facts about float64 arithmetic\<close>

lemma powi_split:
  assumes "e \<le> x"
  shows "(2::real) powi x = 2 ^ nat (x - e) * 2 powi e"
proof -
  have "(2::real) powi x = 2 powi (int (nat (x - e)) + e)" using assms by simp
  also have "\<dots> = 2 powi int (nat (x - e)) * 2 powi e"
    by (rule power_int_add) simp
  also have "\<dots> = 2 ^ nat (x - e) * 2 powi e"
    by (simp only: power_int_of_nat)
  finally show ?thesis .
qed

lemma dy_less_iff:
  "dy_less m1 e1 m2 e2 \<longleftrightarrow> (of_int m1 * 2 powi e1 :: real) < of_int m2 * 2 powi e2"
proof -
  define e where "e = min e1 e2"
  have p: "(2::real) powi x = 2 ^ nat (x - e) * 2 powi e" if "e \<le> x" for x
    using that by (rule powi_split)
  have a: "(of_int m1 * 2 powi e1 :: real) = of_int (m1 * 2 ^ nat (e1 - e)) * 2 powi e"
    using p[of e1] by (simp add: e_def)
  have b: "(of_int m2 * 2 powi e2 :: real) = of_int (m2 * 2 ^ nat (e2 - e)) * 2 powi e"
    using p[of e2] by (simp add: e_def)
  have pos: "(0::real) < 2 powi e" by simp
  have "dy_less m1 e1 m2 e2 \<longleftrightarrow> m1 * 2 ^ nat (e1 - e) < m2 * 2 ^ nat (e2 - e)"
    by (simp add: dy_less_def e_def)
  also have "\<dots> \<longleftrightarrow> (of_int (m1 * 2 ^ nat (e1 - e)) :: real) < of_int (m2 * 2 ^ nat (e2 - e))"
    by (simp only: of_int_less_iff)
  also have "\<dots> \<longleftrightarrow> (of_int (m1 * 2 ^ nat (e1 - e)) * 2 powi e :: real) < of_int (m2 * 2 ^ nat (e2 - e)) * 2 powi e"
    using pos by (simp only: mult_less_cancel_right_pos)
  finally show ?thesis by (simp only: a b)
qed

lemma rne_lower: "0 \<le> a \<Longrightarrow> a div 2 ^ s \<le> rne a s"
  by (simp add: rne_def Let_def)

lemma rne_upper: "rne a s \<le> a div 2 ^ s + 1"
  by (simp add: rne_def Let_def)

lemma rne_exact: "a mod 2 ^ s = 0 \<Longrightarrow> rne a s = a div 2 ^ s"
  by (simp add: rne_def Let_def)

lemma rne_le:
  assumes "a \<le> K * 2 ^ s"
  shows "rne a s \<le> K"
proof (cases "a div 2 ^ s < K")
  case True
  then show ?thesis using rne_upper[of a s] by linarith
next
  case False
  have "a div 2 ^ s \<le> (K * 2 ^ s) div 2 ^ s"
    by (rule zdiv_mono1[OF assms]) simp
  then have "a div 2 ^ s \<le> K" by simp
  with False have eq: "a div 2 ^ s = K" by simp
  have "a = (a div 2 ^ s) * 2 ^ s + a mod 2 ^ s" by (simp only: div_mult_mod_eq)
  then have a: "a = K * 2 ^ s + a mod 2 ^ s" using eq by simp
  have "0 \<le> a mod (2 ^ s :: int)" by simp
  with a assms have "a mod 2 ^ s = 0" by linarith
  then show ?thesis using rne_exact eq by simp
qed



lemma bitlen_exp_less:
  assumes "0 < q" and "(of_int q * 2 powi e :: real) < 2 powi B"
  shows "bitlen q + e \<le> B"
proof -
  have b1: "1 \<le> bitlen q" using assms(1) by (simp add: bitlen_alt_def)
  have "2 ^ nat (bitlen q - 1) \<le> q" using bitlen_bounds[OF assms(1)] by simp
  then have "(of_int (2 ^ nat (bitlen q - 1)) :: real) \<le> of_int q"
    by (simp only: of_int_le_iff)
  then have "(2::real) powi (bitlen q - 1) \<le> of_int q"
    using b1 by (simp add: power_int_def)
  then have "(2::real) powi (bitlen q - 1) * 2 powi e \<le> of_int q * 2 powi e"
    by (rule mult_right_mono) simp
  moreover have "(2::real) powi (bitlen q - 1 + e) = 2 powi (bitlen q - 1) * 2 powi e"
    by (rule power_int_add) simp
  ultimately have "(2::real) powi (bitlen q - 1 + e) < 2 powi B"
    using assms(2) by linarith
  then have "bitlen q - 1 + e < B"
    by (metis not_le power_int_increasing one_le_numeral)
  then show ?thesis by simp
qed

lemma f64_round_le:
  assumes m: "0 < m" and le: "(of_int m * 2 powi e :: real) \<le> of_int N"
    and N: "N < 2 ^ 53"
  shows "\<exists>q e'. f64_round m e = Fin q e' \<and> 0 \<le> q \<and> (of_int q * 2 powi e' :: real) \<le> of_int N"
proof -
  define e' where "e' = max (e + bitlen m - 53) (- 1074)"
  define q where "q = (if e' \<le> e then m * 2 ^ nat (e - e') else rne m (nat (e' - e)))"
  have N53: "(of_int N :: real) < 2 powi 53"
  proof -
    have "(of_int N :: real) < of_int (2 ^ 53)" using N by (simp only: of_int_less_iff)
    then show ?thesis by simp
  qed
  have "(of_int m * 2 powi e :: real) < 2 powi 53" using le N53 by linarith
  then have "bitlen m + e \<le> 53" by (rule bitlen_exp_less[OF m])
  then have e'0: "e' \<le> 0" by (simp add: e'_def)
  define K where "K = N * 2 ^ nat (- e')"
  have K: "(of_int K * 2 powi e' :: real) = of_int N"
  proof -
    have "(2::real) powi 0 = 2 ^ nat (0 - e') * 2 powi e'" by (rule powi_split[OF e'0])
    then have "(2::real) ^ nat (- e') * 2 powi e' = 1" by simp
    then show ?thesis by (simp add: K_def mult.assoc)
  qed
  have q0: "0 \<le> q"
  proof (cases "e' \<le> e")
    case True then show ?thesis using m by (simp add: q_def)
  next
    case False
    have "0 \<le> m div 2 ^ nat (e' - e)" using m by (simp add: pos_imp_zdiv_nonneg_iff)
    moreover have "m div 2 ^ nat (e' - e) \<le> rne m (nat (e' - e))" using m by (simp add: rne_lower)
    ultimately show ?thesis using False by (simp add: q_def)
  qed
  have qN: "(of_int q * 2 powi e' :: real) \<le> of_int N"
  proof (cases "e' \<le> e")
    case True
    have "(2::real) powi e = 2 ^ nat (e - e') * 2 powi e'" by (rule powi_split[OF True])
    then have "(of_int q * 2 powi e' :: real) = of_int m * 2 powi e"
      using True by (simp add: q_def)
    then show ?thesis using le by simp
  next
    case False
    then have lt: "e \<le> e'" by simp
    have sp: "(2::real) powi e' = 2 ^ nat (e' - e) * 2 powi e" by (rule powi_split[OF lt])
    have "(of_int m * 2 powi e :: real) \<le> of_int K * (2 ^ nat (e' - e) * 2 powi e)"
      using le K sp by simp
    then have "(of_int m * 2 powi e :: real) \<le> (of_int K * 2 ^ nat (e' - e)) * 2 powi e"
      by (simp only: mult.assoc)
    then have "(of_int m :: real) \<le> of_int K * 2 ^ nat (e' - e)"
      by (simp add: mult_le_cancel_right)
    then have "(of_int m :: real) \<le> of_int (K * 2 ^ nat (e' - e))" by simp
    then have "m \<le> K * 2 ^ nat (e' - e)" by (simp only: of_int_le_iff)
    then have "rne m (nat (e' - e)) \<le> K" by (rule rne_le)
    then have "q \<le> K" using False by (simp add: q_def)
    then have "(of_int q :: real) \<le> of_int K" by (simp only: of_int_le_iff)
    then have "(of_int q * 2 powi e' :: real) \<le> of_int K * 2 powi e'"
      by (rule mult_right_mono) simp
    then show ?thesis using K by simp
  qed
  have ov: "\<not> 1024 < bitlen q + e'"
  proof (cases "0 < q")
    case True
    have "(of_int q * 2 powi e' :: real) < 2 powi 53" using qN N53 by linarith
    then have "bitlen q + e' \<le> 53" by (rule bitlen_exp_less[OF True])
    then show ?thesis by simp
  next
    case False
    then have "bitlen q = 0" by (simp add: bitlen_eq_zero_iff)
    then show ?thesis using e'0 by simp
  qed
  have "f64_round m e = (if 1024 < bitlen q + e' then PosInf else Fin q e')"
    unfolding q_def e'_def using m by (simp add: f64_round_def Let_def)
  then have "f64_round m e = Fin q e'"
    using ov by simp
  then show ?thesis using q0 qN by blast
qed

lemma dy_trunc_floor:
  assumes "0 \<le> q"
  shows "dy_trunc q e = \<lfloor>of_int q * 2 powi e :: real\<rfloor>"
proof (cases "0 \<le> e")
  case True
  then have "(of_int q * 2 powi e :: real) = of_int (q * 2 ^ nat e)"
    by (simp add: power_int_def)
  then show ?thesis using True by (simp add: dy_trunc_def del: of_int_mult of_int_power)
next
  case False
  then have "(of_int q * 2 powi e :: real) = of_int q / of_int (2 ^ nat (- e))"
    by (simp add: power_int_def field_simps)
  then have "\<lfloor>of_int q * 2 powi e :: real\<rfloor> = q div 2 ^ nat (- e)"
    by (simp only: floor_divide_of_int_eq)
  moreover have "sgn q * (\<bar>q\<bar> div 2 ^ nat (- e)) = q div 2 ^ nat (- e)"
    using assms by (cases "q = 0") (simp_all add: sgn_if)
  ultimately show ?thesis using False by (simp add: dy_trunc_def)
qed

lemma clamp_Fin:
  assumes "p \<noteq> NaN"
  shows "\<exists>m e. math_Max f64_zero (math_Min f64_one p) = Fin m e \<and> 0 \<le> m
           \<and> (of_int m * 2 powi e :: real) \<le> 1"
proof (cases p)
  case NaN
  then show ?thesis using assms by simp
next
  case NegInf
  then show ?thesis by (simp add: math_Max_def math_Min_def f64_zero_def f64_one_def)
next
  case PosInf
  then show ?thesis
    by (simp add: math_Max_def math_Min_def f64_zero_def f64_one_def dy_less_def)
next
  case (Fin m e)
  show ?thesis
  proof (cases "dy_less 1 0 m e")
    case True
    then have "math_Max f64_zero (math_Min f64_one p) = Fin 1 0"
      using Fin by (simp add: math_Max_def math_Min_def f64_zero_def f64_one_def dy_less_def)
    then show ?thesis by simp
  next
    case le1: False
    then have min: "math_Min f64_one p = Fin m e"
      using Fin by (simp add: math_Min_def f64_one_def)
    have m1: "(of_int m * 2 powi e :: real) \<le> 1"
      using le1 by (simp add: dy_less_iff)
    show ?thesis
    proof (cases "m = 0 \<or> dy_less m e 0 0")
      case True
      then have "math_Max f64_zero (math_Min f64_one p) = Fin 0 0"
        unfolding min by (auto simp add: math_Max_def f64_zero_def)
      then show ?thesis by simp
    next
      case False
      then have mx: "math_Max f64_zero (math_Min f64_one p) = Fin m e"
        unfolding min by (simp add: math_Max_def f64_zero_def)
      have "\<not> (of_int m * 2 powi e :: real) < 0"
        using False by (simp add: dy_less_iff)
      then have "0 \<le> m" by (simp add: mult_less_0_iff not_less)
      then show ?thesis using mx m1 by simp
    qed
  qed
qed

lemma f64_of_int_10: "f64_of_int 10 = Fin (10 * 2 ^ 49) (- 49)"
  by code_simp

lemma ten_times_clamped:
  assumes "0 \<le> m" and "(of_int m * 2 powi e :: real) \<le> 1"
  shows "\<exists>q e'. f64_mul (f64_of_int 10) (Fin m e) = Fin q e' \<and> 0 \<le> q
           \<and> (of_int q * 2 powi e' :: real) \<le> 10"
proof (cases "m = 0")
  case True
  then show ?thesis by (simp add: f64_of_int_10 f64_round_def)
next
  case False
  then have pos: "0 < 10 * 2 ^ 49 * m" using assms(1) by simp
  define A :: real where "A = 2 ^ 49"
  define B :: real where "B = 2 powi (- 49)"
  have AB: "A * B = 1" by (simp add: A_def B_def power_int_minus)
  have s: "(2::real) powi (- 49 + e) = B * 2 powi e"
    unfolding B_def by (rule power_int_add) simp
  have o: "(of_int (10 * 2 ^ 49 * m) :: real) = 10 * A * of_int m"
    by (simp add: A_def)
  have "(of_int (10 * 2 ^ 49 * m) * 2 powi (- 49 + e) :: real)
      = 10 * A * of_int m * (B * 2 powi e)"
    by (simp only: s o)
  also have "\<dots> = (A * B) * (10 * (of_int m * 2 powi e))"
    by (simp only: mult_ac)
  also have "\<dots> = 10 * (of_int m * 2 powi e)"
    by (simp only: AB mult_1)
  also have "\<dots> \<le> 10" using assms(2) by simp
  finally have le: "(of_int (10 * 2 ^ 49 * m) * 2 powi (- 49 + e) :: real) \<le> of_int 10"
    by simp
  have "\<exists>q e'. f64_round (10 * 2 ^ 49 * m) (- 49 + e) = Fin q e' \<and> 0 \<le> q
      \<and> (of_int q * 2 powi e' :: real) \<le> of_int 10"
    by (rule f64_round_le[OF pos le]) simp
  then show ?thesis by (simp add: f64_of_int_10)
qed

text \<open>An int below \<open>2 ^ 53\<close> in absolute value converts to float64 without rounding.\<close>

lemma f64_of_int_exact:
  assumes "\<bar>n\<bar> < 2 ^ 53"
  shows "\<exists>q e'. f64_of_int n = Fin q e' \<and> f64_val (Fin q e') = of_int n"
proof (cases "n = 0")
  case True
  then show ?thesis by (simp add: f64_of_int_def f64_round_def)
next
  case False
  define a where "a = \<bar>n\<bar>"
  have a: "0 < a" using False by (simp add: a_def)
  define e' where "e' = max (bitlen a - 53) (- 1074)"
  have "bitlen a \<le> 53" using assms a by (simp add: a_def bitlen_le_iff_power)
  then have e'0: "e' \<le> 0" by (simp add: e'_def)
  define q where "q = a * 2 ^ nat (- e')"
  have bq: "bitlen q = bitlen a + int (nat (- e'))"
    unfolding q_def using a by (rule bitlen_pow2)
  have "bitlen q + e' = bitlen a" using e'0 by (simp add: bq)
  then have ov: "\<not> 1024 < bitlen q + e'" using \<open>bitlen a \<le> 53\<close> by simp
  have "f64_round n 0 = (if 1024 < bitlen q + e' then (if n < 0 then NegInf else PosInf)
      else Fin (sgn n * q) e')"
    unfolding q_def e'_def a_def using False e'0[unfolded e'_def a_def]
    by (simp add: f64_round_def Let_def)
  then have r: "f64_of_int n = Fin (sgn n * q) e'"
    using ov by (simp add: f64_of_int_def)
  have "(2::real) powi 0 = 2 ^ nat (0 - e') * 2 powi e'" by (rule powi_split[OF e'0])
  then have one: "(2::real) ^ nat (- e') * 2 powi e' = 1" by simp
  have "(of_int (sgn n * q) * 2 powi e' :: real)
      = of_int (sgn n * a) * (2 ^ nat (- e') * 2 powi e')"
    by (simp add: q_def mult.assoc)
  also have "\<dots> = of_int (sgn n * a)" by (simp only: one mult_1_right)
  also have "sgn n * a = n" by (simp add: a_def sgn_mult_abs)
  finally show ?thesis using r by simp
qed

lemma concat_replicate_single: "concat (replicate n [c]) = replicate n c"
  by (induction n) simp_all

lemma int64_id: "in_int64 x \<Longrightarrow> int64 x = x"
  by (simp add: int64_def in_int64_def)

subsection \<open>The bar while it runs\<close>

lemma SetProgress_running:
  assumes "started b" and "\<not> stopped b" and "Writer (config b) \<noteq> None"
  shows "SetProgress ev p b =
     Inr (b\<lparr>lastProgress := math_Max f64_zero (math_Min f64_one p),
            written := written b @ CR
              @ write_times
                  (int_of_f64 (conv_undef ev)
                     (f64_mul (f64_of_int (totalWidth b)) (math_Max f64_zero (math_Min f64_one p))))
                  (FilledChar (config b))
              @ write_times
                  (int64 (totalWidth b -
                     int_of_f64 (conv_undef ev)
                       (f64_mul (f64_of_int (totalWidth b)) (math_Max f64_zero (math_Min f64_one p)))))
                  (EmptyChar (config b))
              @ render_suffix ev (config b) (math_Max f64_zero (math_Min f64_one p))\<rparr>)"
  using assms by (auto simp add: SetProgress_def Let_def emit_def render_suffix_def)

lemma track_of_count:
  assumes "0 \<le> k" and "k \<le> 10"
  shows "write_times k ''#'' @ write_times (int64 (10 - k)) '' ''
       = replicate (nat k) CHR ''#'' @ replicate (10 - nat k) CHR '' ''"
proof -
  have "in_int64 (10 - k)" using assms by (simp add: in_int64_def)
  then have "int64 (10 - k) = 10 - k" by (rule int64_id)
  moreover have "nat (10 - k) = 10 - nat k" using assms by simp
  ultimately show ?thesis
    by (simp add: write_times_def concat_replicate_single)
qed

lemma filled_count_10:
  assumes "p \<noteq> NaN"
  shows "int_of_f64 undef (f64_mul (f64_of_int 10) (math_Max f64_zero (math_Min f64_one p)))
           = \<lfloor>f64_val (f64_mul (f64_of_int 10) (math_Max f64_zero (math_Min f64_one p)))\<rfloor>
       \<and> 0 \<le> \<lfloor>f64_val (f64_mul (f64_of_int 10) (math_Max f64_zero (math_Min f64_one p)))\<rfloor>
       \<and> \<lfloor>f64_val (f64_mul (f64_of_int 10) (math_Max f64_zero (math_Min f64_one p)))\<rfloor> \<le> 10"
proof -
  obtain m e where c: "math_Max f64_zero (math_Min f64_one p) = Fin m e"
    and m: "0 \<le> m" and le1: "(of_int m * 2 powi e :: real) \<le> 1"
    using clamp_Fin[OF assms] by blast
  obtain q e' where mul: "f64_mul (f64_of_int 10) (Fin m e) = Fin q e'"
    and q: "0 \<le> q" and le10: "(of_int q * 2 powi e' :: real) \<le> 10"
    using ten_times_clamped[OF m le1] by blast
  define k where "k = \<lfloor>of_int q * 2 powi e' :: real\<rfloor>"
  have tr: "dy_trunc q e' = k" unfolding k_def by (rule dy_trunc_floor[OF q])
  have "(0::real) \<le> of_int q * 2 powi e'" using q by simp
  then have k0: "0 \<le> k" unfolding k_def by simp
  have k10: "k \<le> 10" unfolding k_def using le10 by (simp add: floor_le_iff)
  have "in_int64 k" using k0 k10 by (simp add: in_int64_def)
  then have "int_of_f64 undef (Fin q e') = k" using tr by simp
  then show ?thesis using k0 k10 by (simp add: c mul k_def)
qed

lemma clamp_half: "math_Max f64_zero (math_Min f64_one f64_half) = f64_half"
  by (simp add: math_Max_def math_Min_def f64_zero_def f64_one_def f64_half_def dy_less_def)

lemma clamp_one: "math_Max f64_zero (math_Min f64_one f64_one) = f64_one"
  by (simp add: math_Max_def math_Min_def f64_zero_def f64_one_def dy_less_def)

lemma clamp_three_halves: "math_Max f64_zero (math_Min f64_one f64_three_halves) = f64_one"
  by (simp add: math_Max_def math_Min_def f64_zero_def f64_one_def f64_three_halves_def
      dy_less_def)

lemma ten_times_half: "f64_mul (f64_of_int 10) f64_half = Fin (5 * 2 ^ 50) (- 50)"
  unfolding f64_half_def by code_simp

lemma ten_times_one: "f64_mul (f64_of_int 10) f64_one = Fin (10 * 2 ^ 49) (- 49)"
  unfolding f64_one_def by code_simp

lemma count_half: "int_of_f64 undef (f64_mul (f64_of_int 10) f64_half) = 5"
  by (simp add: ten_times_half dy_trunc_def in_int64_def)

lemma count_one: "int_of_f64 undef (f64_mul (f64_of_int 10) f64_one) = 10"
  by (simp add: ten_times_one dy_trunc_def in_int64_def)

lemma bar10_eq:
  "bar10 = \<lparr>config = StyleDefault\<lparr>Width := 10\<rparr>, totalWidth = 10, lastProgress = f64_zero,
            started = False, stopped = False, startTime = None, notified = False,
            resizers = 0, written = []\<rparr>"
  by (simp add: bar10_def NewBarWithConfig_def WithWidth_def StyleDefault_def calculateWidth_def)

lemma Start_bar10: "Start 0 bar10 = Inr running10"
  by (simp add: running10_def bar10_eq Start_def clearLine_def strings_Repeat_def emit_def
      StyleDefault_def int64_def)

lemma clamp_near_0_7: "math_Max f64_zero (math_Min f64_one f64_near_0_7) = f64_near_0_7"
  by (simp add: math_Max_def math_Min_def f64_zero_def f64_one_def f64_near_0_7_def dy_less_def)

lemma count_near_0_7: "int_of_f64 undef (f64_mul (f64_of_int 10) f64_near_0_7) = 7"
proof -
  have "f64_mul (f64_of_int 10) f64_near_0_7 = Fin (7 * 2 ^ 50) (- 50)"
    unfolding f64_near_0_7_def by code_simp
  then show ?thesis by (simp add: dy_trunc_def in_int64_def)
qed

lemma exact_floor_near_0_7: "\<lfloor>10 * clamp01 (f64_val f64_near_0_7)\<rfloor> = 6"
  by (simp add: f64_near_0_7_def clamp01_def power_int_minus floor_eq_iff)

text \<open>
  C8 as stated fails: the count of filled cells is taken from the float64 product, which
  is rounded.  For the binary64 value nearest to 0.7 the product with 10 rounds to
  exactly 7, and the running bar of width 10 draws seven \<^verbatim>\<open>#\<close> and three blanks, while
  the floor of 10 times the clamped value is 6.
\<close>

theorem SetProgress_near_0_7_draws_seven:
  "SetProgress env_amd64 f64_near_0_7 running10 =
     Inr (running10\<lparr>lastProgress := f64_near_0_7,
            written := written running10 @ CR @ ''#######   ''
              @ render_suffix env_amd64 (config running10) f64_near_0_7\<rparr>)
   \<and> \<lfloor>10 * clamp01 (f64_val f64_near_0_7)\<rfloor> = 6"
proof -
  have h: "started running10" "\<not> stopped running10" "Writer (config running10) \<noteq> None"
    by (simp_all add: running10_def bar10_eq StyleDefault_def)
  have c: "totalWidth running10 = 10" "FilledChar (config running10) = ''#''"
    "EmptyChar (config running10) = '' ''"
    by (simp_all add: running10_def bar10_eq StyleDefault_def)
  have "SetProgress env_amd64 f64_near_0_7 running10 =
     Inr (running10\<lparr>lastProgress := f64_near_0_7,
            written := written running10 @ CR @ ''#######   ''
              @ render_suffix env_amd64 (config running10) f64_near_0_7\<rparr>)"
    by (simp add: SetProgress_running[OF h] c clamp_near_0_7 count_near_0_7 write_times_def
        int64_def eval_nat_numeral)
  then show ?thesis using exact_floor_near_0_7 by simp
qed

text \<open>
  For NaN nothing is clamped: the count is whatever the platform makes of \<^verbatim>\<open>int(NaN)\<close>.
  On amd64 that is the least int, and no cell of the track is written.
\<close>

lemma SetProgress_NaN_track:
  "SetProgress env_amd64 NaN running10 =
     Inr (running10\<lparr>lastProgress := NaN,
            written := written running10 @ CR
              @ render_suffix env_amd64 (config running10) NaN\<rparr>)"
proof -
  have h: "started running10" "\<not> stopped running10" "Writer (config running10) \<noteq> None"
    by (simp_all add: running10_def bar10_eq StyleDefault_def)
  have c: "totalWidth running10 = 10" "FilledChar (config running10) = ''#''"
    "EmptyChar (config running10) = '' ''"
    by (simp_all add: running10_def bar10_eq StyleDefault_def)
  have n: "math_Max f64_zero (math_Min f64_one NaN) = NaN"
    by (simp add: math_Max_def math_Min_def f64_zero_def f64_one_def)
  show ?thesis
    by (simp add: SetProgress_running[OF h] c n f64_of_int_10 write_times_def)
       (simp add: env_amd64_def conv_amd64_def int64_def)
qed

text \<open>
  C8, amended.  On a running bar of width 10 drawn with \<^verbatim>\<open>#\<close> and blanks,
  \<^verbatim>\<open>SetProgress(p)\<close> for any \<open>p\<close> other than NaN writes a carriage return and a track of
  \<open>k\<close> filled cells followed by \<open>10 - k\<close> blanks, where \<open>k\<close>, between 0 and 10, is the floor
  of the float64 product of 10 and the clamped \<open>p\<close>, the product rounded to the nearest
  binary64 value.  At 0.5 the track is \<^verbatim>\<open>#####\<close> and five blanks, at 1.0 it is ten \<^verbatim>\<open>#\<close>,
  and 1.5 gives the very result of 1.0.
\<close>

theorem SetProgress_width10_track:
  assumes "started b" and "\<not> stopped b" and "Writer (config b) \<noteq> None"
    and "totalWidth b = 10"
    and "FilledChar (config b) = ''#''" and "EmptyChar (config b) = '' ''"
    and "p \<noteq> NaN"
  shows "(let c = math_Max f64_zero (math_Min f64_one p);
              k = \<lfloor>f64_val (f64_mul (f64_of_int 10) c)\<rfloor>
          in 0 \<le> k \<and> k \<le> 10 \<and>
             SetProgress ev p b =
               Inr (b\<lparr>lastProgress := c,
                      written := written b @ CR @ replicate (nat k) CHR ''#''
                        @ replicate (10 - nat k) CHR '' '' @ render_suffix ev (config b) c\<rparr>))
       \<and> SetProgress ev f64_half b =
           Inr (b\<lparr>lastProgress := f64_half,
                  written := written b @ CR @ ''#####     ''
                    @ render_suffix ev (config b) f64_half\<rparr>)
       \<and> SetProgress ev f64_one b =
           Inr (b\<lparr>lastProgress := f64_one,
                  written := written b @ CR @ ''##########''
                    @ render_suffix ev (config b) f64_one\<rparr>)
       \<and> SetProgress ev f64_three_halves b = SetProgress ev f64_one b"
proof -
  let ?c = "math_Max f64_zero (math_Min f64_one p)"
  let ?k = "\<lfloor>f64_val (f64_mul (f64_of_int 10) ?c)\<rfloor>"
  note run = SetProgress_running[OF assms(1,2,3)]
  have cnt: "int_of_f64 (conv_undef ev) (f64_mul (f64_of_int 10) ?c) = ?k"
    and k0: "0 \<le> ?k" and k10: "?k \<le> 10"
    using filled_count_10[OF assms(7)] by simp_all
  have general: "SetProgress ev p b =
      Inr (b\<lparr>lastProgress := ?c,
             written := written b @ CR @ replicate (nat ?k) CHR ''#''
               @ replicate (10 - nat ?k) CHR '' '' @ render_suffix ev (config b) ?c\<rparr>)"
    using track_of_count[OF k0 k10]
    by (simp add: run assms(4,5,6) cnt)
  have half: "SetProgress ev f64_half b =
      Inr (b\<lparr>lastProgress := f64_half,
             written := written b @ CR @ ''#####     ''
               @ render_suffix ev (config b) f64_half\<rparr>)"
    by (simp add: run assms(4,5,6) clamp_half count_half write_times_def int64_def
        eval_nat_numeral)
  have one: "SetProgress ev f64_one b =
      Inr (b\<lparr>lastProgress := f64_one,
             written := written b @ CR @ ''##########''
               @ render_suffix ev (config b) f64_one\<rparr>)"
    by (simp add: run assms(4,5,6) clamp_one count_one write_times_def int64_def
        eval_nat_numeral)
  have same: "SetProgress ev f64_three_halves b = SetProgress ev f64_one b"
    by (simp add: run clamp_one clamp_three_halves)
  show ?thesis
    using general k0 k10 half one same by (simp add: Let_def)
qed

theorem SetProgress_width10_track_witness:
  "started running10 \<and> \<not> stopped running10 \<and> Writer (config running10) \<noteq> None
   \<and> totalWidth running10 = 10
   \<and> FilledChar (config running10) = ''#'' \<and> EmptyChar (config running10) = '' ''
   \<and> f64_three_halves \<noteq> NaN
   \<and> SetProgress env_amd64 f64_half running10 =
       Inr (running10\<lparr>lastProgress := f64_half,
              written := written running10 @ CR @ ''#####     ''
                @ render_suffix env_amd64 (config running10) f64_half\<rparr>)
   \<and> SetProgress env_amd64 f64_three_halves running10 = SetProgress env_amd64 f64_one running10"
proof -
  have h: "started running10" "\<not> stopped running10" "Writer (config running10) \<noteq> None"
    "totalWidth running10 = 10"
    "FilledChar (config running10) = ''#''" "EmptyChar (config running10) = '' ''"
    "f64_three_halves \<noteq> NaN"
    by (simp_all add: running10_def bar10_eq StyleDefault_def f64_three_halves_def)
  show ?thesis
    using h SetProgress_width10_track[OF h, of env_amd64] by simp
qed

lemma NewBar_no_terminal:
  "NewBar no_terminal =
     \<lparr>config = StyleDefault, totalWidth = 60, lastProgress = f64_zero, started = False,
      stopped = False, startTime = None, notified = False, resizers = 0, written = []\<rparr>"
  by (simp add: NewBar_def NewBarWithConfig_def StyleDefault_def calculateWidth_def
      no_terminal_def)


subsection \<open>Claims about \<^verbatim>\<open>SetProgress\<close>\<close>

text \<open>
  C9.  On a bar that has not been started, or that has been stopped, \<^verbatim>\<open>SetProgress(p)\<close>
  returns the bar as it was, for every \<open>p\<close>: the stored progress and the bytes written
  are unchanged.
\<close>

theorem SetProgress_not_running_noop:
  assumes "\<not> started b \<or> stopped b"
  shows "SetProgress ev p b = Inr b
       \<and> and_then (SetProgress ev p b) (\<lambda>b'. Inr (GetProgress b')) = Inr (GetProgress b)
       \<and> and_then (SetProgress ev p b) (\<lambda>b'. Inr (written b')) = Inr (written b)"
  using assms by (simp add: SetProgress_def and_then_def)

theorem SetProgress_not_running_noop_witness:
  "\<not> started (NewBar no_terminal)
   \<and> SetProgress env_amd64 f64_half (NewBar no_terminal) = Inr (NewBar no_terminal)
   \<and> GetProgress (NewBar no_terminal) = f64_zero"
proof -
  have h: "\<not> started (NewBar no_terminal) \<or> stopped (NewBar no_terminal)"
    by (simp add: NewBar_no_terminal)
  have "\<not> started (NewBar no_terminal)" by (simp add: NewBar_no_terminal)
  moreover have "GetProgress (NewBar no_terminal) = f64_zero"
    by (simp add: NewBar_no_terminal GetProgress_def)
  ultimately show ?thesis
    using SetProgress_not_running_noop[OF h, of env_amd64 f64_half] by simp
qed


text \<open>A NaN is stored as it is: neither \<^verbatim>\<open>math.Min\<close> nor \<^verbatim>\<open>math.Max\<close> replaces it.\<close>

lemma SetProgress_NaN_stored:
  "and_then (SetProgress ev NaN running10) (\<lambda>b'. Inr (GetProgress b')) = Inr NaN"
  by (simp add: SetProgress_def and_then_def running10_def bar10_eq StyleDefault_def Let_def
      emit_def math_Max_def math_Min_def f64_zero_def f64_one_def GetProgress_def)





subsection \<open>Claims about \<^verbatim>\<open>Stop\<close> on an indicator that is not running\<close>

lemma Stop_when_stopped_noop: "stopped b \<Longrightarrow> Stop b = Inr b"
  by (simp add: Stop_def)

lemma Stop_sets_stopped: "Stop b = Inr b' \<Longrightarrow> stopped b'"
  by (auto simp add: Stop_def Let_def clearLine_def emit_def
      split: if_splits sum.splits option.splits)

lemma Stop_twice_noop: "Stop b = Inr b' \<Longrightarrow> Stop b' = Inr b'"
  by (simp add: Stop_sets_stopped Stop_when_stopped_noop)

lemma Spinner_Stop_not_running_noop: "\<not> running s \<Longrightarrow> Spinner_Stop s = Inr s"
  by (simp add: Spinner_Stop_def)

lemma Spinner_Stop_idle_noop: "Spinner_Stop (Spinner_New []) = Inr (Spinner_New [])"
  by (simp add: Spinner_Stop_def Spinner_New_def)

lemma Spinner_Stop_not_running_after:
  "Spinner_Stop s = Inr s' \<Longrightarrow> \<not> running s' \<or> doneCh s' = None"
  by (auto simp add: Spinner_Stop_def Spinner_clearLine_def Spinner_emit_def
      split: if_splits sum.splits option.splits)

lemma Spinner_Stop_twice_noop: "Spinner_Stop s = Inr s' \<Longrightarrow> Spinner_Stop s' = Inr s'"
  using Spinner_Stop_not_running_after[of s s'] by (auto simp add: Spinner_Stop_def)

text \<open>
  C4 holds for the spinner and for a second \<^verbatim>\<open>Stop\<close> (the lemmas above), but not for a
  bar that was never started: \<^verbatim>\<open>Bar.Stop\<close> tests only \<^verbatim>\<open>stopped\<close>, so on a fresh bar
  it sets \<^verbatim>\<open>stopped\<close> and writes the clearing text, here a carriage return, 70 blanks and
  a carriage return.
\<close>

theorem Stop_on_idle_Bar_not_noop:
  "\<not> IsStarted (NewBar no_terminal) \<and> \<not> IsStopped (NewBar no_terminal)
   \<and> Stop (NewBar no_terminal) =
       Inr ((NewBar no_terminal)\<lparr>stopped := True,
              written := CR @ replicate 70 CHR '' '' @ CR\<rparr>)
   \<and> Stop (NewBar no_terminal) \<noteq> Inr (NewBar no_terminal)"
proof -
  have s: "Stop (NewBar no_terminal) =
       Inr ((NewBar no_terminal)\<lparr>stopped := True,
              written := CR @ replicate 70 CHR '' '' @ CR\<rparr>)"
    by (simp add: NewBar_no_terminal Stop_def clearLine_def StyleDefault_def
        strings_Repeat_def emit_def int64_def)
  have "(NewBar no_terminal)\<lparr>stopped := True,
              written := CR @ replicate 70 CHR '' '' @ CR\<rparr> \<noteq> NewBar no_terminal"
    by (simp add: NewBar_no_terminal)
  then show ?thesis
    using s by (simp add: NewBar_no_terminal IsStarted_def IsStopped_def)
qed

subsection \<open>The width of the track\<close>

lemma terminal_sel:
  "gs_width terminal80 = 80" "gs_err terminal80 = False"
  "gs_width no_terminal = 0" "gs_err no_terminal = True"
  by (simp_all add: terminal80_def no_terminal_def)

text \<open>
  C7 as stated fails: on a terminal of 80 columns with the percentage shown and no
  estimate, the track is 73 cells wide, not 80 - 5.
\<close>

theorem calculateWidth_margin:
  "ShowPercent (config (NewBar no_terminal)) \<and> \<not> ShowETA (config (NewBar no_terminal))
   \<and> totalWidth (calculateWidth terminal80 (NewBar no_terminal)) = 73
   \<and> totalWidth (calculateWidth terminal80 (NewBar no_terminal)) \<noteq> gs_width terminal80 - 5"
  by (simp add: NewBar_no_terminal calculateWidth_def StyleDefault_def terminal_sel int64_def)

text \<open>
  C7, amended.  \<^verbatim>\<open>calculateWidth\<close> of the configurable bar returns no error.  A positive
  configured width is used as it is.  Otherwise a failed query gives the fallback 60, and
  a query that reports \<open>w\<close> columns gives \<open>w\<close> minus 5 when the percentage is shown, minus
  12 when the estimate is shown, minus a further margin of 2, and 10 when that is less
  than 10.
\<close>

theorem calculateWidth_result:
  assumes "in_int64 (gs_width gs)" and "in_int64 (gs_width gs - 19)"
  shows "totalWidth (calculateWidth gs b) =
           (if 0 < Width (config b) then Width (config b)
            else if gs_err gs then 60
            else max 10 (gs_width gs - (if ShowPercent (config b) then 5 else 0)
                           - (if ShowETA (config b) then 12 else 0) - 2))
       \<and> (0 < Width (config b) \<or> 10 \<le> totalWidth (calculateWidth gs b))"
proof -
  have r: "- (2 ^ 63) \<le> gs_width gs - 19" "gs_width gs < 2 ^ 63"
    using assms by (simp_all add: in_int64_def)
  have i: "int64 x = x" if "gs_width gs - 19 \<le> x" "x \<le> gs_width gs" for x
    using that r by (intro int64_id) (simp add: in_int64_def)
  have five: "int64 5 = 5" and sev: "int64 17 = 17" and tw: "int64 12 = 12"
    by (simp_all add: int64_def)
  show ?thesis
    by (simp add: calculateWidth_def Let_def five sev tw i)
qed

theorem calculateWidth_result_witness:
  "in_int64 (gs_width terminal80) \<and> in_int64 (gs_width terminal80 - 19)
   \<and> totalWidth (calculateWidth terminal80 (NewBar no_terminal)) = 73
   \<and> totalWidth (calculateWidth no_terminal (NewBar no_terminal)) = 60
   \<and> totalWidth (calculateWidth terminal80 bar10) = 10"
proof -
  have h: "in_int64 (gs_width terminal80)" "in_int64 (gs_width terminal80 - 19)"
    by (simp_all add: terminal_sel in_int64_def)
  have h': "in_int64 (gs_width no_terminal)" "in_int64 (gs_width no_terminal - 19)"
    by (simp_all add: terminal_sel in_int64_def)
  show ?thesis
    using h calculateWidth_result[OF h, of "NewBar no_terminal"]
      calculateWidth_result[OF h', of "NewBar no_terminal"]
      calculateWidth_result[OF h, of bar10]
    by (simp add: NewBar_no_terminal bar10_eq StyleDefault_def terminal_sel)
qed

text \<open>
  The minimal bar of progress/progress.go ignores the error of the width query and has
  no floor.  When the query fails and reports width 0, its width is -1, and \<^verbatim>\<open>Start\<close>
  panics in \<^verbatim>\<open>strings.Repeat\<close>.
\<close>

lemma NewBar0_no_terminal_panics:
  "totalWidth0 (NewBar0 no_terminal) = - 1 \<and> Start0 (NewBar0 no_terminal) = Inl NegativeRepeat"
  by (simp add: NewBar0_def calculateWidth0_def terminal_sel int64_def Start0_def clearLine0_def
      strings_Repeat_def)

subsection \<open>The registries\<close>

text \<open>
  C10.  \<^verbatim>\<open>Add\<close> never rejects a name.  Afterwards the name maps to an entry holding the
  indicator just constructed and the given label, every other name maps to what it did
  before, and the entry of a name that was present is gone.  The entry's line is the
  number of entries the map had before the assignment, the replaced entry included; so
  after adding "a", "a" again and then "b", both entries are on line 1.
\<close>

theorem Add_overwrites:
  "bars (MultiBar_Add gs name lbl cfg opts mb) =
     (bars mb)(name \<mapsto>
        \<lparr>bar = NewBarWithConfig gs cfg opts, label = lbl, line = int (card (dom (bars mb)))\<rparr>)
   \<and> spinners (MultiSpinner_Add name lbl sopts ms) =
       (spinners ms)(name \<mapsto>
          \<lparr>spinner = Spinner_New (sopts @ [WithPrefix (lbl @ '' '')]), label_s = lbl,
           line_s = int (card (dom (spinners ms)))\<rparr>)
   \<and> dom (bars (MultiBar_Add gs name lbl cfg opts mb)) = insert name (dom (bars mb))
   \<and> dom (spinners (MultiSpinner_Add name lbl sopts ms)) = insert name (dom (spinners ms))
   \<and> map_option line
         (bars (MultiBar_Add gs ''b'' lbl cfg opts
                  (MultiBar_Add gs ''a'' lbl cfg opts
                     (MultiBar_Add gs ''a'' lbl cfg opts NewMultiBar))) ''a'') = Some 1
   \<and> map_option line
         (bars (MultiBar_Add gs ''b'' lbl cfg opts
                  (MultiBar_Add gs ''a'' lbl cfg opts
                     (MultiBar_Add gs ''a'' lbl cfg opts NewMultiBar))) ''b'') = Some 1
   \<and> map_option line_s
         (spinners (MultiSpinner_Add ''b'' lbl sopts
                  (MultiSpinner_Add ''a'' lbl sopts
                     (MultiSpinner_Add ''a'' lbl sopts NewMultiSpinner))) ''a'') = Some 1
   \<and> map_option line_s
         (spinners (MultiSpinner_Add ''b'' lbl sopts
                  (MultiSpinner_Add ''a'' lbl sopts
                     (MultiSpinner_Add ''a'' lbl sopts NewMultiSpinner))) ''b'') = Some 1"
  by (simp add: MultiBar_Add_def MultiSpinner_Add_def Let_def NewMultiBar_def
      NewMultiSpinner_def)

lemma Add_lookup_other:
  "k \<noteq> name \<Longrightarrow> bars (MultiBar_Add gs name lbl cfg opts mb) k = bars mb k"
  by (simp add: MultiBar_Add_def Let_def)

lemma NewBarWithConfig_idle:
  "\<not> started (NewBarWithConfig gs cfg opts) \<and> \<not> stopped (NewBarWithConfig gs cfg opts)
   \<and> lastProgress (NewBarWithConfig gs cfg opts) = f64_zero"
  by (simp add: NewBarWithConfig_def calculateWidth_def Let_def)

subsection \<open>Restarting an indicator\<close>

lemma Spinner_Stop_inv:
  assumes "Spinner_inv s" and "writer s \<noteq> None"
  shows "Spinner_Stop s =
     Inr (if running s
          then s\<lparr>printed := printed s @ CR
                     @ replicate (length (prefix s) + length (suffix s) + 1) CHR '' '' @ CR,
                  frameIndex := None, doneCh := None, finishedCh := None, running := False\<rparr>
          else s)"
  using assms
  by (auto simp add: Spinner_inv_def Spinner_Stop_def Spinner_clearLine_def Spinner_emit_def)

lemma Spinner_Start_resets:
  assumes "\<not> running s" and "0 < frameDuration s"
  shows "Spinner_Start s =
     Inr (s\<lparr>frameIndex := Some 0, doneCh := Some OpenChan, finishedCh := Some OpenChan,
            running := True\<rparr>)"
  using assms by (simp add: Spinner_Start_def)

lemma Spinner_tick_first:
  assumes "frameIndex s = Some 0" and "frames s \<noteq> []" and "writer s \<noteq> None"
  shows "Spinner_tick s =
     Inr (s\<lparr>printed := printed s @ CR @ prefix s @ utf8 (frames s ! 0) @ suffix s,
            frameIndex := Some 1\<rparr>)"
  using assms
  by (auto simp add: Spinner_tick_def frame_at_def go_rem_def Spinner_emit_def int64_def)

text \<open>
  \<open>Spinner_inv\<close> holds of a new spinner and is kept by \<^verbatim>\<open>Start\<close>, by a tick and by
  \<^verbatim>\<open>Stop\<close>.
\<close>

lemma Spinner_inv_New: "Spinner_inv (Spinner_New [])"
  by (simp add: Spinner_inv_def Spinner_New_def)

lemma Spinner_inv_Start:
  assumes "Spinner_inv s" and "Spinner_Start s = Inr s'"
  shows "Spinner_inv s'"
  using assms by (auto simp add: Spinner_inv_def Spinner_Start_def split: if_splits)

lemma Spinner_inv_tick:
  assumes "Spinner_inv s" and "Spinner_tick s = Inr s'"
  shows "Spinner_inv s'"
proof (cases "frameIndex s")
  case None
  then show ?thesis using assms by (simp add: Spinner_tick_def)
next
  case (Some i)
  then obtain frame where f: "frame_at (frames s) i = Inr frame"
    using assms(2) by (cases "frame_at (frames s) i") (simp_all add: Spinner_tick_def)
  obtain s1 where e: "Spinner_emit s (CR @ prefix s @ utf8 frame @ suffix s) = Inr s1"
    using assms(2) Some f
    by (cases "Spinner_emit s (CR @ prefix s @ utf8 frame @ suffix s)")
       (simp_all add: Spinner_tick_def)
  have s1: "s1 = s\<lparr>printed := printed s @ CR @ prefix s @ utf8 frame @ suffix s\<rparr>"
    using e by (cases "writer s") (simp_all add: Spinner_emit_def)
  have "s' = s1\<lparr>frameIndex := Some (int64 (i + 1))\<rparr>"
    using assms(2) Some f e by (simp add: Spinner_tick_def)
  then show ?thesis
    using assms(1) Some by (cases "running s") (simp_all add: s1 Spinner_inv_def)
qed

lemma Spinner_inv_Stop:
  assumes "Spinner_inv s" and "Spinner_Stop s = Inr s'"
  shows "Spinner_inv s'"
proof (cases "writer s")
  case None
  then show ?thesis
    using assms
    by (cases "running s")
       (auto simp add: Spinner_inv_def Spinner_Stop_def Spinner_clearLine_def Spinner_emit_def)
next
  case (Some w)
  then have "writer s \<noteq> None" by simp
  then show ?thesis
    using assms Spinner_Stop_inv[OF assms(1)]
    by (cases "running s") (auto simp add: Spinner_inv_def)
qed

text \<open>
  The configurable spinner and the configurable bar do what C5 says: after \<^verbatim>\<open>Stop\<close> and
  \<^verbatim>\<open>Start\<close> the next frame written is the first of the sequence, and the progress of the
  bar is 0.
\<close>

lemma Spinner_restart_first_frame:
  assumes "Spinner_inv s" and "writer s \<noteq> None" and "frames s \<noteq> []"
    and "0 < frameDuration s"
  shows "and_then (and_then (and_then (Spinner_Stop s) Spinner_Start) Spinner_tick)
           (\<lambda>s'. Inr (printed s'))
         = and_then (Spinner_Stop s)
             (\<lambda>s1. Inr (printed s1 @ CR @ prefix s @ utf8 (frames s ! 0) @ suffix s))"
proof -
  obtain s1 where s1: "Spinner_Stop s = Inr s1" and nr: "\<not> running s1"
    and same: "frames s1 = frames s" "prefix s1 = prefix s" "suffix s1 = suffix s"
      "writer s1 = writer s" "frameDuration s1 = frameDuration s"
    using Spinner_Stop_inv[OF assms(1,2)] by (cases "running s") simp_all
  define s2 where "s2 = s1\<lparr>frameIndex := Some 0, doneCh := Some OpenChan,
    finishedCh := Some OpenChan, running := True\<rparr>"
  have s2: "Spinner_Start s1 = Inr s2"
    unfolding s2_def using nr assms(4) same by (intro Spinner_Start_resets) simp_all
  have "Spinner_tick s2 =
     Inr (s2\<lparr>printed := printed s2 @ CR @ prefix s2 @ utf8 (frames s2 ! 0) @ suffix s2,
            frameIndex := Some 1\<rparr>)"
    using assms(2,3) same by (intro Spinner_tick_first) (simp_all add: s2_def)
  then show ?thesis
    using s1 s2 same by (simp add: and_then_def s2_def)
qed

lemma Bar_restart_resets_progress:
  assumes "Stop b = Inr b1" and "Start now b1 = Inr b2"
  shows "GetProgress b2 = f64_zero"
proof -
  have "stopped b1" using assms(1) by (rule Stop_sets_stopped)
  then show ?thesis
    using assms(2)
    by (auto simp add: Start_def GetProgress_def Let_def split: sum.splits if_splits)
qed

lemma utf8_slash: "utf8 0x2F = ''/''"
  by code_simp

text \<open>
  C5 fails on the minimal spinner of spinner/spinner.go.  Its goroutine increments \<open>i\<close>
  before it first draws, so the first frame written after \<^verbatim>\<open>Start\<close> is the second of the
  sequence (\<^verbatim>\<open>/\<close> for the default frames, not \<^verbatim>\<open>|\<close>); and its \<^verbatim>\<open>Stop\<close> leaves \<^verbatim>\<open>doneCh\<close>
  set, so the \<^verbatim>\<open>Start\<close> after a \<^verbatim>\<open>Stop\<close> returns at once and no frame is written again.
\<close>

theorem Spinner0_restart_draws_nothing:
  "and_then (Spinner0_Start (Spinner0_New [])) Spinner0_tick =
     Inr ((Spinner0_New [])\<lparr>doneCh0 := Some OpenChan, finishedCh0 := Some OpenChan,
            anim0 := Some 1, printed0 := CR @ ''/''\<rparr>)
   \<and> and_then (and_then (Spinner0_Start (Spinner0_New [])) Spinner0_Stop) Spinner0_Start =
       Inr ((Spinner0_New [])\<lparr>doneCh0 := Some ClosedChan, finishedCh0 := Some ClosedChan,
              anim0 := None, printed0 := CR\<rparr>)
   \<and> and_then
         (and_then (and_then (Spinner0_Start (Spinner0_New [])) Spinner0_Stop) Spinner0_Start)
         Spinner0_tick =
       Inr ((Spinner0_New [])\<lparr>doneCh0 := Some ClosedChan, finishedCh0 := Some ClosedChan,
              anim0 := None, printed0 := CR\<rparr>)"
  by (simp add: and_then_def Spinner0_New_def Spinner0_Start_def Spinner0_Stop_def
      Spinner0_tick_def frame_at_def go_rem_def FramesLines_def utf8_slash int64_def Let_def)

subsection \<open>\<^verbatim>\<open>Run\<close>\<close>

text \<open>
  The configurable bar: when \<^verbatim>\<open>Run\<close> returns, every call of \<open>fn\<close> has been made and
  \<^verbatim>\<open>Stop\<close> has run after them; a function that panics ends the process instead, and
  \<^verbatim>\<open>Stop\<close> does not run.
\<close>

lemma Run_returns_stopped:
  assumes "Run ev now fn b = Inr b'"
  shows "\<not> fn_panics fn \<and> stopped b'
       \<and> Inr b' = and_then (and_then (Start now b) (set_all ev (fn_calls fn))) Stop"
  using assms
  by (auto simp add: Run_def and_then_def Stop_sets_stopped split: sum.splits if_splits)

lemma Run_panicking_fn:
  assumes "fn_panics fn"
  shows "Run ev now fn b \<noteq> Inr b'"
  using assms by (auto simp add: Run_def split: sum.splits)

lemma percent_half: "int_of_f64 undef (f64_mul f64_half (Fin 100 0)) = 50"
proof -
  have "f64_mul f64_half (Fin 100 0) = Fin (25 * 2 ^ 48) (- 47)"
    unfolding f64_half_def by code_simp
  then show ?thesis by (simp add: dy_trunc_def in_int64_def)
qed

lemma show_50: "show_int 50 = ''50''"
  by code_simp

lemma Run_bar10:
  "Run env_amd64 0 \<lparr>fn_calls = [f64_half], fn_panics = False\<rparr> bar10 =
     Inr (bar10\<lparr>lastProgress := f64_half, started := True, stopped := True,
            startTime := Some 0,
            written := CR @ replicate 20 CHR '' '' @ CR @ ''#####     '' @ ''  50%''
                       @ CR @ replicate 20 CHR '' '' @ CR\<rparr>)"
proof -
  have h: "started running10" "\<not> stopped running10" "Writer (config running10) \<noteq> None"
    by (simp_all add: running10_def bar10_eq StyleDefault_def)
  have "SetProgress env_amd64 f64_half running10 =
      Inr (running10\<lparr>lastProgress := f64_half,
             written := written running10 @ CR @ ''#####     '' @ ''  50%''\<rparr>)"
    by (simp add: SetProgress_running[OF h] clamp_half)
       (simp add: running10_def bar10_eq StyleDefault_def count_half write_times_def int64_def
          render_suffix_def percent_half show_50 pad_left_def eval_nat_numeral)
  then show ?thesis
    by (simp add: Run_def Start_bar10)
       (simp add: running10_def bar10_eq Stop_def clearLine_def strings_Repeat_def emit_def
          StyleDefault_def int64_def)
qed

lemma NewBar0_terminal80:
  "NewBar0 terminal80 =
     \<lparr>totalWidth0 = 79, lastPosition = f64_zero, notified0 = False, resizers0 = 0,
      stdout0 = []\<rparr>"
  by (simp add: NewBar0_def calculateWidth0_def terminal_sel int64_def)

lemma count_79_half: "int_of_f64 undef (f64_mul (f64_of_int 79) f64_half) = 39"
proof -
  have "f64_mul (f64_of_int 79) f64_half = Fin (79 * 2 ^ 46) (- 47)"
    unfolding f64_half_def by code_simp
  then show ?thesis by (simp add: dy_trunc_def in_int64_def)
qed

text \<open>
  C3 fails on the minimal bar of progress/progress.go: its \<^verbatim>\<open>Run\<close> calls \<^verbatim>\<open>Stop\<close> without
  waiting.  When the scheduler has not yet run \<open>fn\<close>, \<^verbatim>\<open>Run\<close> returns with the call of
  \<open>fn\<close> still to come, and that call then draws the bar on the line \<^verbatim>\<open>Stop\<close> had cleared.
\<close>

theorem Run0_stops_before_fn:
  "Run0 env_amd64 0 \<lparr>fn_calls = [f64_half], fn_panics = False\<rparr> (NewBar0 terminal80) =
     Inr ((NewBar0 terminal80)\<lparr>notified0 := True, resizers0 := 1,
             stdout0 := CR @ replicate 79 CHR '' '' @ CR @ replicate 79 CHR '' '' @ CR\<rparr>,
          [f64_half])
   \<and> and_then
         (Run0 env_amd64 0 \<lparr>fn_calls = [f64_half], fn_panics = False\<rparr> (NewBar0 terminal80))
         (\<lambda>(b, rest). set_all0 env_amd64 rest b) =
       Inr ((NewBar0 terminal80)\<lparr>lastPosition := f64_half, notified0 := True, resizers0 := 1,
              stdout0 := CR @ replicate 79 CHR '' '' @ CR @ replicate 79 CHR '' '' @ CR
                         @ CR @ replicate 39 CHR ''#'' @ replicate 40 CHR '' ''\<rparr>)"
  by (simp add: NewBar0_terminal80 Run0_def and_then_def Start0_def Stop0_def clearLine0_def
      strings_Repeat_def SetProgress0_def Let_def count_79_half int64_def
      concat_replicate_single)

subsection \<open>What is still alive when \<^verbatim>\<open>Stop\<close> returns\<close>

lemma Start_NewBar_no_terminal:
  "Start 0 (NewBar no_terminal) =
     Inr ((NewBar no_terminal)\<lparr>started := True, startTime := Some 0, notified := True,
            resizers := 1, written := CR @ replicate 70 CHR '' ''\<rparr>)"
  by (simp add: NewBar_no_terminal Start_def clearLine_def strings_Repeat_def emit_def
      StyleDefault_def int64_def)

text \<open>
  C2 as stated fails for the bar: \<^verbatim>\<open>Bar.Stop\<close> waits for nothing.  After \<^verbatim>\<open>Start\<close> and
  \<^verbatim>\<open>Stop\<close> on a bar of automatic width, the \<^verbatim>\<open>handleResize\<close> goroutine that \<^verbatim>\<open>Start\<close>
  spawned has not returned.
\<close>

theorem Stop_leaves_resize_watcher:
  "and_then (and_then (Start 0 (NewBar no_terminal)) Stop) (\<lambda>b. Inr (stopped b, resizers b))
     = Inr (True, 1)"
  by (simp add: Start_NewBar_no_terminal and_then_def)
     (simp add: NewBar_no_terminal Stop_def clearLine_def strings_Repeat_def emit_def
        StyleDefault_def int64_def)

lemma emit_resizers: "emit b txt = Inr b' \<Longrightarrow> resizers b' = resizers b"
  by (cases "Writer (config b)") (auto simp add: emit_def)

lemma clearLine_resizers: "clearLine b = Inr b' \<Longrightarrow> resizers b' = resizers b"
  unfolding clearLine_def Let_def
  by (cases "strings_Repeat '' ''
        (int64 ((if ShowETA (config b)
                 then int64 ((if ShowPercent (config b) then int64 (totalWidth b + 5)
                              else totalWidth b) + 12)
                 else (if ShowPercent (config b) then int64 (totalWidth b + 5)
                       else totalWidth b)) + 5))")
     (simp_all add: emit_resizers)

lemma Stop_resizers:
  assumes "Stop b = Inr b'"
  shows "resizers b' = resizers b"
proof (cases "stopped b")
  case True
  then show ?thesis using assms by (simp add: Stop_def)
next
  case False
  define b2 where
    "b2 = (if Width (config b) = 0 then b\<lparr>stopped := True, notified := False\<rparr>
           else b\<lparr>stopped := True\<rparr>)"
  have r2: "resizers b2 = resizers b" by (simp add: b2_def)
  have st: "Stop b = (case clearLine b2 of Inl e \<Rightarrow> Inl e | Inr b3 \<Rightarrow> emit b3 CR)"
    using False by (simp add: Stop_def Let_def b2_def)
  show ?thesis
  proof (cases "clearLine b2")
    case (Inl e)
    then show ?thesis using assms st by simp
  next
    case (Inr b3)
    then have "emit b3 CR = Inr b'" using assms st by simp
    then have "resizers b' = resizers b3" by (rule emit_resizers)
    also have "\<dots> = resizers b2" using Inr by (rule clearLine_resizers)
    finally show ?thesis using r2 by simp
  qed
qed

lemma Stop_keeps_resizers:
  "and_then (Stop b) (\<lambda>b'. Inr (resizers b')) = and_then (Stop b) (\<lambda>b'. Inr (resizers b))"
  by (cases "Stop b") (simp_all add: and_then_def Stop_resizers)

text \<open>
  C2, amended.  \<^verbatim>\<open>Spinner.Stop\<close> returns only after the animation goroutine has cleared
  the line and returned: afterwards no goroutine is alive, the spinner is not running and
  a tick of the ticker writes nothing.  \<^verbatim>\<open>Bar.Stop\<close> has no animation goroutine to wait
  for and does not wait for the resize watcher: the \<^verbatim>\<open>handleResize\<close> goroutines alive
  before it are alive when it returns.
\<close>

theorem Stop_joins_spinner_only:
  assumes "Spinner_inv s" and "writer s \<noteq> None"
  shows "and_then (Spinner_Stop s) (\<lambda>s'. Inr (frameIndex s', running s')) = Inr (None, False)
       \<and> and_then (Spinner_Stop s) Spinner_tick = Spinner_Stop s
       \<and> and_then (Stop b) (\<lambda>b'. Inr (resizers b'))
           = and_then (Stop b) (\<lambda>b'. Inr (resizers b))"
proof -
  have "and_then (Spinner_Stop s) (\<lambda>s'. Inr (frameIndex s', running s')) = Inr (None, False)"
    using assms
    by (auto simp add: Spinner_Stop_inv[OF assms] and_then_def Spinner_inv_def)
  moreover have "and_then (Spinner_Stop s) Spinner_tick = Spinner_Stop s"
    using assms
    by (auto simp add: Spinner_Stop_inv[OF assms] and_then_def Spinner_inv_def
        Spinner_tick_def)
  ultimately show ?thesis using Stop_keeps_resizers by simp
qed

lemma Spinner_started:
  "Spinner_Start (Spinner_New []) =
     Inr ((Spinner_New [])\<lparr>frameIndex := Some 0, doneCh := Some OpenChan,
            finishedCh := Some OpenChan, running := True\<rparr>)"
  by (simp add: Spinner_Start_def Spinner_New_def)

theorem Stop_joins_spinner_only_witness:
  "Spinner_inv ((Spinner_New [])\<lparr>frameIndex := Some 0, doneCh := Some OpenChan,
            finishedCh := Some OpenChan, running := True\<rparr>)
   \<and> writer ((Spinner_New [])\<lparr>frameIndex := Some 0, doneCh := Some OpenChan,
            finishedCh := Some OpenChan, running := True\<rparr>) \<noteq> None
   \<and> and_then (Spinner_Stop ((Spinner_New [])\<lparr>frameIndex := Some 0, doneCh := Some OpenChan,
            finishedCh := Some OpenChan, running := True\<rparr>))
         (\<lambda>s'. Inr (frameIndex s', running s', printed s'))
       = Inr (None, False, [CHR 0x0D, CHR '' '', CHR 0x0D])"
proof -
  let ?s = "(Spinner_New [])\<lparr>frameIndex := Some 0, doneCh := Some OpenChan,
            finishedCh := Some OpenChan, running := True\<rparr>"
  have h: "Spinner_inv ?s" "writer ?s \<noteq> None"
    by (simp_all add: Spinner_inv_def Spinner_New_def)
  have p: "and_then (Spinner_Stop ?s) (\<lambda>s'. Inr (printed s'))
      = Inr [CHR 0x0D, CHR '' '', CHR 0x0D]"
    by (simp add: Spinner_Stop_inv[OF h] and_then_def)
       (simp add: Spinner_New_def CR_def)
  show ?thesis
    using h p Stop_joins_spinner_only[OF h, of "NewBar no_terminal"]
    by (auto simp add: and_then_def split: sum.splits)
qed

end
